theory Spec2Isabelle
  imports Complex_Main
begin

section \<open>Errors and array access\<close>

text \<open>
  Numbers are modelled as reals: \<open>jnp.sqrt\<close>, \<open>jnp.exp\<close> and \<open>jnp.minimum\<close> become
  \<open>sqrt\<close>, \<open>exp\<close> and \<open>min\<close>.  Every exception of the Python source is a value of
  type \<open>error\<close>; a computation that may raise returns \<open>error + 'a\<close>.
\<close>

datatype site =
    EmptyAxis          \<comment> \<open>indexing a jax array along an axis of size 0\<close>
  | PositionIndices    \<comment> \<open>\<open>self._position_indices[i]\<close> on a Python list\<close>
  | Subgames           \<comment> \<open>\<open>self._subgames[l1][l2]\<close>\<close>
  | OperatingPoint     \<comment> \<open>an index into a solver's \<open>_best_operating_point\<close> arrays\<close>
  | NomCost            \<comment> \<open>\<open>nom_cost1_k[l1, l2]\<close> / \<open>nom_cost2_k[l1, l2]\<close>\<close>
  | Bundle             \<comment> \<open>a per-mode slice \<open>[..., l1, l2]\<close> of the other bundle arrays\<close>
  | Attention          \<comment> \<open>\<open>zs[-1, k]\<close>\<close>

datatype error =
    NotImplementedError
  | TypeError
  | IndexError site
  | ShapeError         \<comment> \<open>shapes that cannot be broadcast (numpy \<open>ValueError\<close>, jax \<open>TypeError\<close>)\<close>
  | CollaboratorError  \<comment> \<open>an external component raised\<close>

definition bindE :: "error + 'a \<Rightarrow> ('a \<Rightarrow> error + 'b) \<Rightarrow> error + 'b" where
  "bindE m f = (case m of Inl e \<Rightarrow> Inl e | Inr a \<Rightarrow> f a)"

text \<open>A loop whose body may raise: the first error ends it.\<close>

fun foldE :: "('i \<Rightarrow> 's \<Rightarrow> error + 's) \<Rightarrow> 'i list \<Rightarrow> 's \<Rightarrow> error + 's" where
  "foldE f [] s = Inr s"
| "foldE f (i # is) s = bindE (f i s) (foldE f is)"

text \<open>
  \<open>lax.fori_loop(lower, upper, body, init)\<close>.  jax traces the body once, on the index
  and the initial carry, before any iteration and also when there is none; an error that
  the shapes of the arrays decide is raised by that trace.  The trace is one run of the body
  whose result is dropped; the iterations follow.
\<close>

definition fori_loop :: "nat \<Rightarrow> nat \<Rightarrow> (nat \<Rightarrow> 's \<Rightarrow> error + 's) \<Rightarrow> 's \<Rightarrow> error + 's" where
  "fori_loop lower upper body init =
     bindE (body lower init) (\<lambda>_. foldE body [lower..<upper] init)"

text \<open>
  \<open>a[i]\<close> on a jax array, for an index \<open>i \<ge> 0\<close>: jax does not raise on an index past the
  end but clamps it to the last position; only an axis of size 0 cannot be indexed.
\<close>

definition jnp_index :: "'a list \<Rightarrow> nat \<Rightarrow> error + 'a" where
  "jnp_index a i = (if a = [] then Inl (IndexError EmptyAxis)
                    else Inr (a ! min i (length a - 1)))"

text \<open>
  \<open>a.at[i].set(v)\<close> on a jax array, for \<open>i \<ge> 0\<close>: an update past the end is dropped; an
  axis of size 0 cannot be indexed.
\<close>

definition jnp_at_set :: "'a list \<Rightarrow> nat \<Rightarrow> 'a \<Rightarrow> error + 'a list" where
  "jnp_at_set a i v = (if a = [] then Inl (IndexError EmptyAxis) else Inr (a[i := v]))"

text \<open>\<open>l[i]\<close> on a Python list, for \<open>i \<ge> 0\<close>.\<close>

definition py_index :: "site \<Rightarrow> 'a list \<Rightarrow> nat \<Rightarrow> error + 'a" where
  "py_index s l i = (if i < length l then Inr (l ! i) else Inl (IndexError s))"

type_synonym vec = "real list"

text \<open>
  A trajectory array of shape \<open>(n, N)\<close> whose last axis is time is kept as the list of its
  \<open>N\<close> time columns, each a vector of length \<open>n\<close>; \<open>x[:, k]\<close> is then the \<open>k\<close>-th element.
\<close>

type_synonym traj = "vec list"

section \<open>cost.py: the Cost variants\<close>

datatype cost_kind =
    AbstractCost
  | ObstacleCost nat nat real real real
      \<comment> \<open>\<open>_x_index _y_index _point.x _point.y _max_distance\<close>\<close>
  | ProductStateProximityCostTwoPlayer "(nat \<times> nat) list" real
      \<comment> \<open>\<open>_position_indices _max_distance\<close>\<close>
  | ProximityCost nat nat real real real
      \<comment> \<open>\<open>_x_index _y_index _point_px _point_py _max_distance\<close>\<close>
  | QuadraticCost nat real bool
      \<comment> \<open>\<open>_dimension _origin _is_x\<close>\<close>
  | ReferenceDeviationCost real nat bool
      \<comment> \<open>\<open>reference _dimension _is_x\<close>\<close>
  | ReferenceDeviationCostPxDependent real real nat nat
      \<comment> \<open>\<open>reference _px_lb _px_dim _dimension\<close>\<close>
  | SemiquadraticCost nat real bool bool
      \<comment> \<open>\<open>_dimension _threshold _oriented_right _is_x\<close>\<close>
  | MaxVelCostPxDependent nat nat real real real
      \<comment> \<open>\<open>_v_index _px_index _max_v _px_lb _px_ub\<close>\<close>
  | BoxInputConstraintCost nat real real real real
      \<comment> \<open>\<open>_u_index _control_min _control_max _q1 _q2\<close>\<close>

text \<open>The attributes of the base class \<open>Cost\<close>, and the variant.\<close>

record cost =
  name :: string
  horizon :: "nat option"
  x_dim :: "nat option"
  ui_dim :: "nat option"
  kind :: cost_kind

text \<open>\<open>self._max_exp_bound\<close>, as the two initializers set it.\<close>

definition proximity_max_exp_bound :: real where
  "proximity_max_exp_bound = 100000"

definition max_vel_max_exp_bound :: real where
  "max_vel_max_exp_bound = 1000"

text \<open>\<open>(x - origin)**2\<close> on the coordinate \<open>dimension\<close> of the state or of the control.\<close>

definition QuadraticCost_get_cost ::
  "nat \<Rightarrow> 'a \<Rightarrow> bool \<Rightarrow> ('a::{minus,power}) list \<Rightarrow> 'a list \<Rightarrow> nat \<Rightarrow> error + 'a" where
  "QuadraticCost_get_cost dimension origin is_x x ui k =
     (if is_x then bindE (jnp_index x dimension) (\<lambda>v. Inr ((v - origin)\<^sup>2))
      else bindE (jnp_index ui dimension) (\<lambda>v. Inr ((v - origin)\<^sup>2)))"

fun kind_get_cost :: "cost_kind \<Rightarrow> vec \<Rightarrow> vec \<Rightarrow> nat \<Rightarrow> error + real" where
  "kind_get_cost AbstractCost x ui k = Inl NotImplementedError"
| "kind_get_cost (ObstacleCost x_index y_index point_x point_y max_distance) x ui k =
     bindE (jnp_index x x_index) (\<lambda>xv.
     bindE (jnp_index x y_index) (\<lambda>yv.
       let dx = xv - point_x;
           dy = yv - point_y;
           relative_distance = sqrt (dx * dx + dy * dy)
       in Inr ((min (relative_distance - max_distance) 0)\<^sup>2)))"
| "kind_get_cost (ProductStateProximityCostTwoPlayer position_indices max_distance) x ui k =
     bindE (py_index PositionIndices position_indices 0) (\<lambda>(x1_idx, y1_idx).
     bindE (py_index PositionIndices position_indices 1) (\<lambda>(x2_idx, y2_idx).
     bindE (jnp_index x x1_idx) (\<lambda>x1.
     bindE (jnp_index x x2_idx) (\<lambda>x2.
     bindE (jnp_index x y1_idx) (\<lambda>y1.
     bindE (jnp_index x y2_idx) (\<lambda>y2.
       let total_cost = 0;
           rel_dist = sqrt ((x1 - x2)\<^sup>2 + (y1 - y2)\<^sup>2);
           total_cost = total_cost +
             min (exp ((min (rel_dist - max_distance) 0)\<^sup>2)) proximity_max_exp_bound;
           rel_dist = sqrt ((x2 - x1)\<^sup>2 + (y2 - y1)\<^sup>2);
           total_cost = total_cost +
             min (exp ((min (rel_dist - max_distance) 0)\<^sup>2)) proximity_max_exp_bound
       in Inr total_cost))))))"
| "kind_get_cost (ProximityCost x_index y_index point_px point_py max_distance) x ui k =
     bindE (jnp_index x x_index) (\<lambda>xv.
     bindE (jnp_index x y_index) (\<lambda>yv.
       let dx = xv - point_px;
           dy = yv - point_py;
           rel_dist = sqrt (dx\<^sup>2 + dy\<^sup>2)
       in Inr (exp ((min (rel_dist - max_distance) 0)\<^sup>2))))"
| "kind_get_cost (QuadraticCost dimension origin is_x) x ui k =
     QuadraticCost_get_cost dimension origin is_x x ui k"
| "kind_get_cost (ReferenceDeviationCost reference dimension is_x) x ui k =
     (if is_x then bindE (jnp_index x dimension) (\<lambda>v. Inr ((v - reference)\<^sup>2))
      else bindE (jnp_index ui dimension) (\<lambda>v. Inr ((v - reference)\<^sup>2)))"
| "kind_get_cost (ReferenceDeviationCostPxDependent reference px_lb px_dim dimension) x ui k =
     bindE (jnp_index x px_dim) (\<lambda>px.
     bindE (jnp_index x dimension) (\<lambda>v.
       Inr (if px \<ge> px_lb then (v - reference)\<^sup>2 else 0)))"
| "kind_get_cost (SemiquadraticCost dimension threshold oriented_right is_x) x ui k =
     (let z = (if is_x then x else ui) in
      bindE (jnp_index z dimension) (\<lambda>v.
        if oriented_right
        then Inr (if v > threshold then exp ((v - threshold)\<^sup>2) else 0)
        else Inr (if v < threshold then exp ((v - threshold)\<^sup>2) else 0)))"
| "kind_get_cost (MaxVelCostPxDependent v_index px_index max_v px_lb px_ub) x ui k =
     bindE (jnp_index x px_index) (\<lambda>px.
     bindE (jnp_index x v_index) (\<lambda>v.
       Inr (if v > max_v \<and> px_lb < px \<and> px < px_ub
            then min (exp ((v - max_v)\<^sup>2)) max_vel_max_exp_bound
            else 0)))"
| "kind_get_cost (BoxInputConstraintCost u_index control_min control_max q1 q2) x ui k =
     bindE (jnp_index ui u_index) (\<lambda>control.
       let margin_ub = control - control_max;
           margin_lb = control_min - control;
           c_ub = q1 * (exp (q2 * margin_ub) - 1);
           c_lb = q1 * (exp (q2 * margin_lb) - 1)
       in Inr (c_lb + c_ub))"

definition get_cost :: "cost \<Rightarrow> vec \<Rightarrow> vec \<Rightarrow> nat \<Rightarrow> error + real" where
  "get_cost c x ui k = kind_get_cost (kind c) x ui k"

text \<open>
  \<open>Cost.get_traj_cost\<close>: a buffer of \<open>horizon\<close> zeros, filled by \<open>lax.fori_loop\<close>; step \<open>k\<close>
  stores \<open>get_cost(x[:, k], ui[:, k], k)\<close> at position \<open>k\<close> (\<open>costs.at[k].set\<close>).  With
  \<open>horizon = None\<close>, \<open>jnp.zeros\<close> raises.  With \<open>horizon = 0\<close> the loop has no iteration,
  but the trace of its body indexes the empty buffer and raises.
\<close>

definition get_traj_cost_looper :: "cost \<Rightarrow> traj \<Rightarrow> traj \<Rightarrow> nat \<Rightarrow> vec \<Rightarrow> error + vec" where
  "get_traj_cost_looper c x ui k costs =
     bindE (jnp_index x k) (\<lambda>xk.
     bindE (jnp_index ui k) (\<lambda>uk.
     bindE (get_cost c xk uk k) (\<lambda>v.
       jnp_at_set costs k v)))"

definition get_traj_cost :: "cost \<Rightarrow> traj \<Rightarrow> traj \<Rightarrow> error + vec" where
  "get_traj_cost c x ui =
     (case horizon c of
        None \<Rightarrow> Inl TypeError
      | Some N \<Rightarrow> fori_loop 0 N (get_traj_cost_looper c x ui) (replicate N 0))"


section \<open>cost.py: PlayerCost\<close>

datatype arg = ArgX | ArgU nat   \<comment> \<open>\<open>"x"\<close>, or the index of a player's control\<close>

record PlayerCost =
  costs :: "cost list"
  args :: "arg list"
  weights :: "real list"

definition PlayerCost_init :: PlayerCost where
  "PlayerCost_init = \<lparr>costs = [], args = [], weights = []\<rparr>"

definition add_cost :: "PlayerCost \<Rightarrow> cost \<Rightarrow> arg \<Rightarrow> real \<Rightarrow> PlayerCost" where
  "add_cost pc c a weight =
     pc\<lparr>costs := costs pc @ [c], args := args pc @ [a], weights := weights pc @ [weight]\<rparr>"

text \<open>A player cost with the terms \<open>regs\<close> registered in this order.\<close>

definition registered :: "(cost \<times> arg \<times> real) list \<Rightarrow> PlayerCost" where
  "registered regs = foldl (\<lambda>pc (c, a, weight). add_cost pc c a weight) PlayerCost_init regs"

text \<open>
  \<open>total_cost\<close> starts as the Python float \<open>0.\<close> and becomes an array with the first
  \<open>+=\<close>; two arrays are added under the broadcasting rule for one axis.
\<close>

datatype total = Scalar real | Array vec

definition np_add :: "vec \<Rightarrow> vec \<Rightarrow> error + vec" where
  "np_add a b =
     (if length a = length b then Inr (map2 (+) a b)
      else if length b = 1 then Inr (map (\<lambda>v. v + hd b) a)
      else if length a = 1 then Inr (map (\<lambda>v. hd a + v) b)
      else Inl ShapeError)"

fun add_total :: "total \<Rightarrow> vec \<Rightarrow> error + total" where
  "add_total (Scalar s) v = Inr (Array (map (\<lambda>a. s + a) v))"
| "add_total (Array a) v = bindE (np_add a v) (\<lambda>r. Inr (Array r))"

definition PlayerCost_get_cost :: "PlayerCost \<Rightarrow> traj \<Rightarrow> traj \<Rightarrow> nat \<Rightarrow> error + total" where
  "PlayerCost_get_cost pc x ui k =
     foldE (\<lambda>(c, weight) total_cost.
              bindE (get_traj_cost c x ui) (\<lambda>t.
                add_total total_cost (map (\<lambda>v. weight * v) t)))
           (zip (costs pc) (weights pc)) (Scalar 0)"

text \<open>
  The weighted sum of the terms' trajectory costs, as the specification words it: entry \<open>j\<close>
  is the sum over the registered terms of \<open>weight * get_traj_cost(x, u)[j]\<close>, where \<open>tc c\<close>
  is the trajectory cost of term \<open>c\<close>.
\<close>

definition weighted_traj_sum :: "(cost \<times> arg \<times> real) list \<Rightarrow> (cost \<Rightarrow> vec) \<Rightarrow> nat \<Rightarrow> vec" where
  "weighted_traj_sum regs tc N =
     map (\<lambda>j. \<Sum>(c, a, weight) \<leftarrow> regs. weight * tc c ! j) [0..<N]"

section \<open>cost.py: derivatives of QuadraticCost\<close>

text \<open>
  \<open>jax.jacfwd\<close> differentiates in forward mode: the function is run on numbers that carry
  a tangent next to their value.  \<open>Dual a a'\<close> is the value \<open>a\<close> with tangent \<open>a'\<close>.
\<close>

datatype 'a dual = Dual 'a 'a

fun re :: "'a dual \<Rightarrow> 'a" where
  "re (Dual a a') = a"

fun eps :: "'a dual \<Rightarrow> 'a" where
  "eps (Dual a a') = a'"

instantiation dual :: (comm_ring_1) comm_ring_1
begin

definition zero_dual :: "'a dual" where
  "zero_dual = Dual 0 0"

definition one_dual :: "'a dual" where
  "one_dual = Dual 1 0"

definition plus_dual :: "'a dual \<Rightarrow> 'a dual \<Rightarrow> 'a dual" where
  "plus_dual p q = Dual (re p + re q) (eps p + eps q)"

definition minus_dual :: "'a dual \<Rightarrow> 'a dual \<Rightarrow> 'a dual" where
  "minus_dual p q = Dual (re p - re q) (eps p - eps q)"

definition uminus_dual :: "'a dual \<Rightarrow> 'a dual" where
  "uminus_dual p = Dual (- re p) (- eps p)"

definition times_dual :: "'a dual \<Rightarrow> 'a dual \<Rightarrow> 'a dual" where
  "times_dual p q = Dual (re p * re q) (re p * eps q + eps p * re q)"

instance
proof
  fix a b c :: "'a dual"
  show "a + b + c = a + (b + c)"
    by (simp add: plus_dual_def add.assoc)
  show "a + b = b + a"
    by (simp add: plus_dual_def add.commute)
  show "0 + a = a"
    by (cases a) (simp add: plus_dual_def zero_dual_def)
  show "- a + a = 0"
    by (simp add: plus_dual_def uminus_dual_def zero_dual_def)
  show "a - b = a + - b"
    by (simp add: plus_dual_def uminus_dual_def minus_dual_def)
  show "a * b * c = a * (b * c)"
    by (simp add: times_dual_def algebra_simps)
  show "a * b = b * a"
    by (simp add: times_dual_def algebra_simps)
  show "1 * a = a"
    by (cases a) (simp add: times_dual_def one_dual_def)
  show "(a + b) * c = a * c + b * c"
    by (simp add: times_dual_def plus_dual_def algebra_simps)
  show "(0::'a dual) \<noteq> 1"
    by (simp add: zero_dual_def one_dual_def)
qed

end

text \<open>A constant has tangent 0; the \<open>i\<close>-th input direction seeds tangent 1 at position \<open>i\<close>.\<close>

definition dconst :: "'a \<Rightarrow> ('a::zero) dual" where
  "dconst a = Dual a 0"

definition seed :: "('a::{zero,one}) list \<Rightarrow> nat \<Rightarrow> 'a dual list" where
  "seed x i = map (\<lambda>j. Dual (x ! j) (if j = i then 1 else 0)) [0..<length x]"

fun mapE :: "('a \<Rightarrow> error + 'b) \<Rightarrow> 'a list \<Rightarrow> error + 'b list" where
  "mapE f [] = Inr []"
| "mapE f (a # as) = bindE (f a) (\<lambda>b. bindE (mapE f as) (\<lambda>bs. Inr (b # bs)))"

text \<open>
  \<open>jacfwd(f)(x)\<close> for a scalar \<open>f\<close> of one vector: \<open>f\<close> is traced once (an error of \<open>f\<close> is
  raised even when \<open>x\<close> has no entries), and entry \<open>i\<close> is the tangent of \<open>f\<close> along input \<open>i\<close>.
\<close>

definition jacfwd :: "('a dual list \<Rightarrow> error + 'a dual) \<Rightarrow> ('a::{zero,one}) list \<Rightarrow> error + 'a list" where
  "jacfwd f x =
     bindE (f (map dconst x)) (\<lambda>_.
       mapE (\<lambda>i. bindE (f (seed x i)) (\<lambda>y. Inr (eps y))) [0..<length x])"

text \<open>
  The Jacobian of a vector-valued \<open>g\<close>, of shape (outputs, inputs): row \<open>j\<close> holds the
  tangents of output \<open>j\<close> along every input.
\<close>

definition jacfwd_vec ::
  "('a dual list \<Rightarrow> error + 'a dual list) \<Rightarrow> ('a::{zero,one}) list \<Rightarrow> error + 'a list list" where
  "jacfwd_vec g x =
     bindE (g (map dconst x)) (\<lambda>y0.
     bindE (mapE (\<lambda>i. bindE (g (seed x i)) (\<lambda>y. Inr (map eps y))) [0..<length x]) (\<lambda>cols.
       Inr (map (\<lambda>j. map (\<lambda>col. col ! j) cols) [0..<length y0])))"

text \<open>
  \<open>jax.hessian(f)\<close> is the Jacobian of the gradient of \<open>f\<close>; the gradient is itself taken on
  dual numbers, so \<open>f\<close> runs on duals of duals.  jax takes the inner gradient in reverse
  mode, which has the same entries whenever every read of \<open>f\<close> is inside its array; a read
  past the end is differentiated to 0 in reverse mode and to the clamped entry in forward
  mode, so this Hessian is the one of the code for reads inside the array.
\<close>

definition hessian ::
  "('a dual dual list \<Rightarrow> error + 'a dual dual) \<Rightarrow> ('a::comm_ring_1) list
     \<Rightarrow> error + 'a list list" where
  "hessian f x = jacfwd_vec (\<lambda>y. jacfwd f y) x"

text \<open>
  \<open>Cost.get_grad\<close> and \<open>Cost.get_hess\<close> on a \<open>QuadraticCost\<close>: \<open>jacfwd\<close> of \<open>get_cost\<close>
  in the state and in the control, and \<open>hessian\<close> of \<open>get_cost\<close> in the state and in the
  control.  The argument that is not differentiated, and the origin, are constants.
\<close>

definition QuadraticCost_get_grad ::
  "nat \<Rightarrow> real \<Rightarrow> bool \<Rightarrow> vec \<Rightarrow> vec \<Rightarrow> nat \<Rightarrow> error + (vec \<times> vec)" where
  "QuadraticCost_get_grad dimension origin is_x x ui k =
     bindE (jacfwd (\<lambda>y. QuadraticCost_get_cost dimension (dconst origin) is_x
                          y (map dconst ui) k) x) (\<lambda>dcdx.
     bindE (jacfwd (\<lambda>v. QuadraticCost_get_cost dimension (dconst origin) is_x
                          (map dconst x) v k) ui) (\<lambda>dcdu.
       Inr (dcdx, dcdu)))"

definition QuadraticCost_get_hess ::
  "nat \<Rightarrow> real \<Rightarrow> bool \<Rightarrow> vec \<Rightarrow> vec \<Rightarrow> nat \<Rightarrow> error + (vec list \<times> vec list)" where
  "QuadraticCost_get_hess dimension origin is_x x ui k =
     bindE (hessian (\<lambda>y. QuadraticCost_get_cost dimension (dconst (dconst origin)) is_x
                           y (map (dconst \<circ> dconst) ui) k) x) (\<lambda>Hxx.
     bindE (hessian (\<lambda>v. QuadraticCost_get_cost dimension (dconst (dconst origin)) is_x
                           (map (dconst \<circ> dconst) x) v k) ui) (\<lambda>Huu.
       Inr (Hxx, Huu)))"

section \<open>RHCPlanner.py\<close>

text \<open>
  A matrix is the list of its rows.  An assignment \<open>a[...] = v\<close> into a slot of a given
  shape broadcasts \<open>v\<close> to that shape or raises.
\<close>

type_synonym mat = "vec list"

definition bcast_vec :: "nat \<Rightarrow> 'a list \<Rightarrow> error + 'a list" where
  "bcast_vec n v =
     (if length v = n then Inr v
      else if length v = 1 then Inr (replicate n (hd v))
      else Inl ShapeError)"

definition bcast_mat :: "nat \<Rightarrow> nat \<Rightarrow> mat \<Rightarrow> error + mat" where
  "bcast_mat r c M = bindE (bcast_vec r M) (mapE (bcast_vec c))"

text \<open>\<open>a[l1, l2] = v\<close> (or \<open>a[..., l1, l2] = v\<close>) on an array kept as a grid of entries.\<close>

definition np_set2 :: "site \<Rightarrow> 'a list list \<Rightarrow> nat \<Rightarrow> nat \<Rightarrow> 'a \<Rightarrow> error + 'a list list" where
  "np_set2 s a l1 l2 v =
     (if l1 < length a \<and> l2 < length (a ! l1) then Inr (a[l1 := (a ! l1)[l2 := v]])
      else Inl (IndexError s))"

text \<open>
  What the planner reads of a solver's \<open>_best_operating_point\<close>: entry 0, the nominal states
  (state, time); entry 4, the quadratic cost-to-go terms (player, state, state, time), kept
  as the list over time of the players' matrices; entry 5, the linear terms (player, state,
  time), kept likewise; entry 6, the nominal costs (player).
\<close>

record op_point =
  op_xs :: traj
  op_Zs :: "mat list list"
  op_zetas :: "vec list list"
  op_nom_costs :: vec

text \<open>The arrays filled while the subgames are solved (grids indexed \<open>[l1][l2]\<close>).\<close>

record subgame_arrays =
  Z1_k :: "mat list list"
  Z2_k :: "mat list list"
  zeta1_k :: "vec list list"
  zeta2_k :: "vec list list"
  nom_cost1_k :: "real list list"
  nom_cost2_k :: "real list list"
  xnom_k :: "vec list list"

text \<open>The tuple \<open>subgame_k\<close>, in the order of the source.\<close>

record subgame =
  sg_Z1 :: "mat list list"
  sg_Z2 :: "mat list list"
  sg_zeta1 :: "vec list list"
  sg_zeta2 :: "vec list list"
  sg_xnom :: "vec list list"
  sg_znom1 :: vec
  sg_znom2 :: vec
  sg_nom_cost1 :: "real list list"
  sg_nom_cost2 :: "real list list"

text \<open>\<open>att1_k\<close> is a slice of length at most one, \<open>att2_k\<close> a scalar.\<close>

datatype att = AttSlice vec | AttScalar real

text \<open>
  The external components, as the planner uses them.  Each call may change the state \<open>'w\<close>
  of the components and may raise (\<open>None\<close>).  \<open>'s\<close> names a subgame solver, \<open>'u\<close> is a
  control action.  The first argument of \<open>plan_level_0\<close> and \<open>plan_level_1\<close> is the player
  whose QMDP planner is called.
\<close>

record ('s, 'u, 'w) collaborators =
  solver_run :: "'s \<Rightarrow> vec \<Rightarrow> 'w \<Rightarrow> 'w option"
  best_operating_point :: "'s \<Rightarrow> 'w \<Rightarrow> op_point"
  plan_level_0 :: "nat \<Rightarrow> vec \<Rightarrow> vec \<Rightarrow> vec \<Rightarrow> 's list list \<Rightarrow> 'w \<Rightarrow> ('u \<times> 'w) option"
  plan_level_1 :: "nat \<Rightarrow> vec \<Rightarrow> vec \<Rightarrow> vec \<Rightarrow> att \<Rightarrow> att \<Rightarrow> 's list list \<Rightarrow> subgame \<Rightarrow> 'w
                   \<Rightarrow> ('u \<times> 'w) option"
  cont_time_dyn :: "vec \<Rightarrow> subgame \<Rightarrow> 'w \<Rightarrow> ((vec \<times> mat \<times> real \<times> real) \<times> 'w) option"
  disc_time_dyn :: "vec \<Rightarrow> 'u list \<Rightarrow> 'w \<Rightarrow> (vec \<times> 'w) option"
  T :: real
  num_opn_P1 :: nat
  num_opn_P2 :: nat

record ('s, 'u, 'w) RHCPlanner =
  subgames :: "'s list list"
  N_sim :: nat
  collab :: "('s, 'u, 'w) collaborators"
  method_name :: string
  look_ahead :: nat
  xs :: "traj option"
  zs :: "traj option"
  Hs :: "mat list option"
  PoI :: "vec list option"

text \<open>The local arrays \<open>xs\<close>, \<open>zs\<close>, \<open>Hs\<close>, \<open>PoI\<close> of \<open>plan\<close>, each the list of its time slices.\<close>

record logs =
  loc_xs :: traj
  loc_zs :: traj
  loc_Hs :: "mat list"
  loc_PoI :: "vec list"

definition call :: "'a option \<Rightarrow> error + 'a" where
  "call r = (case r of None \<Rightarrow> Inl CollaboratorError | Some a \<Rightarrow> Inr a)"

text \<open>Lines 94 to 106: one subgame is solved and its results are stored at \<open>[l1, l2]\<close>.\<close>

definition collect_subgame ::
  "('s, 'u, 'w) RHCPlanner \<Rightarrow> nat \<Rightarrow> vec \<Rightarrow> nat \<Rightarrow> nat \<Rightarrow> subgame_arrays \<times> 'w
     \<Rightarrow> error + subgame_arrays \<times> 'w" where
  "collect_subgame p nx x_k l1 l2 = (\<lambda>(A, w).
     bindE (py_index Subgames (subgames p) l1) (\<lambda>row.
     bindE (py_index Subgames row l2) (\<lambda>solver.
     bindE (call (solver_run (collab p) solver x_k w)) (\<lambda>w.
     let op = best_operating_point (collab p) solver w;
         xs_ILQ = op_xs op in
     bindE (py_index OperatingPoint xs_ILQ (look_ahead p)) (\<lambda>xnom.
     bindE (bcast_vec nx xnom) (\<lambda>xnom.
     bindE (np_set2 Bundle (xnom_k A) l1 l2 xnom) (\<lambda>xnom_k'.
     bindE (py_index OperatingPoint (op_Zs op) 0) (\<lambda>Zs.
     bindE (py_index OperatingPoint (op_zetas op) 0) (\<lambda>zetas.
     let nom_costs = op_nom_costs op in
     bindE (py_index OperatingPoint Zs 0) (\<lambda>Zs0.
     bindE (bcast_mat nx nx Zs0) (\<lambda>Zs0.
     bindE (np_set2 Bundle (Z1_k A) l1 l2 Zs0) (\<lambda>Z1_k'.
     bindE (py_index OperatingPoint Zs 1) (\<lambda>Zs1.
     bindE (bcast_mat nx nx Zs1) (\<lambda>Zs1.
     bindE (np_set2 Bundle (Z2_k A) l1 l2 Zs1) (\<lambda>Z2_k'.
     bindE (py_index OperatingPoint zetas 0) (\<lambda>zetas0.
     bindE (bcast_vec nx zetas0) (\<lambda>zetas0.
     bindE (np_set2 Bundle (zeta1_k A) l1 l2 zetas0) (\<lambda>zeta1_k'.
     bindE (py_index OperatingPoint zetas 1) (\<lambda>zetas1.
     bindE (bcast_vec nx zetas1) (\<lambda>zetas1.
     bindE (np_set2 Bundle (zeta2_k A) l1 l2 zetas1) (\<lambda>zeta2_k'.
     bindE (py_index OperatingPoint nom_costs 0) (\<lambda>nom_costs0.
     bindE (np_set2 NomCost (nom_cost1_k A) l1 l2 nom_costs0) (\<lambda>nom_cost1_k'.
     bindE (py_index OperatingPoint nom_costs 1) (\<lambda>nom_costs1.
     bindE (np_set2 NomCost (nom_cost2_k A) l1 l2 nom_costs1) (\<lambda>nom_cost2_k'.
       Inr (\<lparr>Z1_k = Z1_k', Z2_k = Z2_k', zeta1_k = zeta1_k', zeta2_k = zeta2_k',
             nom_cost1_k = nom_cost1_k', nom_cost2_k = nom_cost2_k', xnom_k = xnom_k'\<rparr>,
            w))))))))))))))))))))))))))"

text \<open>Lines 83 to 89: the arrays of a step, all zeros; the nominal costs are 2 by 2.\<close>

definition init_arrays :: "nat \<Rightarrow> nat \<Rightarrow> nat \<Rightarrow> subgame_arrays" where
  "init_arrays nx nz1 nz2 =
     \<lparr>Z1_k = replicate nz1 (replicate nz2 (replicate nx (replicate nx 0))),
      Z2_k = replicate nz1 (replicate nz2 (replicate nx (replicate nx 0))),
      zeta1_k = replicate nz1 (replicate nz2 (replicate nx 0)),
      zeta2_k = replicate nz1 (replicate nz2 (replicate nx 0)),
      nom_cost1_k = replicate 2 (replicate 2 0),
      nom_cost2_k = replicate 2 (replicate 2 0),
      xnom_k = replicate nz1 (replicate nz2 (replicate nx 0))\<rparr>"

text \<open>Lines 92 to 106: the double loop over the opinion modes.\<close>

definition collect_subgames ::
  "('s, 'u, 'w) RHCPlanner \<Rightarrow> nat \<Rightarrow> nat \<Rightarrow> nat \<Rightarrow> vec \<Rightarrow> 'w \<Rightarrow> error + subgame_arrays \<times> 'w" where
  "collect_subgames p nx nz1 nz2 x_k w =
     foldE (\<lambda>l1. foldE (\<lambda>l2. collect_subgame p nx x_k l1 l2) [0..<nz2]) [0..<nz1]
           (init_arrays nx nz1 nz2, w)"

text \<open>Lines 111 to 123: the opinion references and the tuple \<open>subgame_k\<close>.\<close>

definition subgame_k :: "subgame_arrays \<Rightarrow> nat \<Rightarrow> nat \<Rightarrow> vec \<Rightarrow> traj \<Rightarrow> nat \<Rightarrow> subgame" where
  "subgame_k A nz1 nz2 z0 zs_loc k =
     (let znom1_k = (if k = 0 then take nz1 z0 else take nz1 (zs_loc ! (k - 1)));
          znom2_k = (if k = 0 then take nz2 (drop nz1 z0)
                     else take nz2 (drop nz1 (zs_loc ! (k - 1))))
      in \<lparr>sg_Z1 = Z1_k A, sg_Z2 = Z2_k A, sg_zeta1 = zeta1_k A, sg_zeta2 = zeta2_k A,
          sg_xnom = xnom_k A, sg_znom1 = znom1_k, sg_znom2 = znom2_k,
          sg_nom_cost1 = nom_cost1_k A, sg_nom_cost2 = nom_cost2_k A\<rparr>)"

text \<open>Lines 126 to 151: the two actions, by \<open>method\<close>.\<close>

definition dispatch ::
  "('s, 'u, 'w) RHCPlanner \<Rightarrow> vec \<Rightarrow> vec \<Rightarrow> vec \<Rightarrow> att \<Rightarrow> att \<Rightarrow> subgame \<Rightarrow> 'w
     \<Rightarrow> error + ('u \<times> 'u) \<times> 'w" where
  "dispatch p x_k z1_k z2_k att1_k att2_k sg w =
     (if method_name p = ''QMDPL0'' then
        bindE (call (plan_level_0 (collab p) 1 x_k z1_k z2_k (subgames p) w)) (\<lambda>(u1, w).
        bindE (call (plan_level_0 (collab p) 2 x_k z2_k z1_k (subgames p) w)) (\<lambda>(u2, w).
          Inr ((u1, u2), w)))
      else if method_name p = ''QMDPL1'' then
        bindE (call (plan_level_1 (collab p) 1 x_k z1_k z2_k att1_k att2_k
                       (subgames p) sg w)) (\<lambda>(u1, w).
        bindE (call (plan_level_1 (collab p) 2 x_k z2_k z1_k att2_k att1_k
                       (subgames p) sg w)) (\<lambda>(u2, w).
          Inr ((u1, u2), w)))
      else if method_name p = ''QMDPL1L0'' then
        bindE (call (plan_level_1 (collab p) 1 x_k z1_k z2_k att1_k att2_k
                       (subgames p) sg w)) (\<lambda>(u1, w).
        bindE (call (plan_level_0 (collab p) 2 x_k z2_k z1_k (subgames p) w)) (\<lambda>(u2, w).
          Inr ((u1, u2), w)))
      else Inl NotImplementedError)"

text \<open>
  Lines 82 to 153, the first half of step \<open>k\<close>: the subgames, the bundle, the opinion slices
  of column \<open>k\<close> and the two actions.
\<close>

definition step_decide ::
  "('s, 'u, 'w) RHCPlanner \<Rightarrow> nat \<Rightarrow> nat \<Rightarrow> nat \<Rightarrow> vec \<Rightarrow> nat \<Rightarrow> logs \<Rightarrow> 'w
     \<Rightarrow> error + (subgame \<times> 'u list) \<times> 'w" where
  "step_decide p nx nz1 nz2 z0 k L w =
     bindE (collect_subgames p nx nz1 nz2 (loc_xs L ! k) w) (\<lambda>(A, w).
     let sg = subgame_k A nz1 nz2 z0 (loc_zs L) k;
         z1_k = take nz1 (loc_zs L ! k);
         z2_k = take nz2 (drop nz1 (loc_zs L ! k));
         att1_k = take 1 (drop (nz1 + nz2) (loc_zs L ! k)) in
     bindE (if loc_zs L ! k = [] then Inl (IndexError Attention)
            else Inr (last (loc_zs L ! k))) (\<lambda>att2_k.
     bindE (dispatch p (loc_xs L ! k) z1_k z2_k (AttSlice att1_k) (AttScalar att2_k) sg w)
       (\<lambda>((u1, u2), w).
       Inr ((sg, [u1, u2]), w))))"

text \<open>
  Lines 155 to 166, the second half: the opinion model, the Euler step into column \<open>k + 1\<close>
  of \<open>zs\<close>, the logs \<open>Hs\<close> and \<open>PoI\<close>, and the physical step into column \<open>k + 1\<close> of \<open>xs\<close>.
\<close>

definition step_evolve ::
  "('s, 'u, 'w) RHCPlanner \<Rightarrow> nat \<Rightarrow> nat \<Rightarrow> nat \<Rightarrow> nat \<Rightarrow> nat \<Rightarrow> subgame \<Rightarrow> 'u list \<Rightarrow> logs \<Rightarrow> 'w
     \<Rightarrow> error + logs \<times> 'w" where
  "step_evolve p nx nz nz1 nz2 k sg u_list L w =
     (let x_jnt = loc_xs L ! k @ loc_zs L ! k in
      bindE (call (cont_time_dyn (collab p) x_jnt sg w)) (\<lambda>((z_dot_k, H_k, PoI1_k, PoI2_k), w).
      bindE (np_add (loc_zs L ! k) (map (\<lambda>v. T (collab p) * v) z_dot_k)) (\<lambda>z_next.
      bindE (bcast_vec nz z_next) (\<lambda>z_next.
      let zs' = (loc_zs L)[k + 1 := z_next] in
      bindE (bcast_mat (nz1 + nz2) (nz1 + nz2) H_k) (\<lambda>H_k.
      let Hs' = (loc_Hs L)[k := H_k];
          PoI' = (loc_PoI L)[k := [PoI1_k, PoI2_k]] in
      bindE (call (disc_time_dyn (collab p) (loc_xs L ! k) u_list w)) (\<lambda>(x_ph_next, w).
      bindE (bcast_vec nx x_ph_next) (\<lambda>x_ph_next.
      let xs' = (loc_xs L)[k + 1 := x_ph_next] in
        Inr (\<lparr>loc_xs = xs', loc_zs = zs', loc_Hs = Hs', loc_PoI = PoI'\<rparr>, w))))))))"

text \<open>The body of the loop over \<open>k\<close>.\<close>

definition step ::
  "('s, 'u, 'w) RHCPlanner \<Rightarrow> nat \<Rightarrow> nat \<Rightarrow> nat \<Rightarrow> nat \<Rightarrow> vec \<Rightarrow> nat \<Rightarrow> logs \<times> 'w
     \<Rightarrow> error + logs \<times> 'w" where
  "step p nx nz nz1 nz2 z0 k = (\<lambda>(L, w).
     bindE (step_decide p nx nz1 nz2 z0 k L w) (\<lambda>((sg, u_list), w).
       step_evolve p nx nz nz1 nz2 k sg u_list L w))"

text \<open>Lines 68 to 79: the four arrays before the loop.\<close>

definition init_logs :: "nat \<Rightarrow> nat \<Rightarrow> nat \<Rightarrow> vec \<Rightarrow> vec \<Rightarrow> logs" where
  "init_logs N nz1 nz2 x0 z0 =
     \<lparr>loc_xs = (replicate (N + 1) (replicate (length x0) 0))[0 := x0],
      loc_zs = (replicate (N + 1) (replicate (length z0) 0))[0 := z0],
      loc_Hs = replicate N (replicate (nz1 + nz2) (replicate (nz1 + nz2) 0)),
      loc_PoI = replicate N (replicate 2 0)\<rparr>"

text \<open>The first \<open>n\<close> steps of the loop of \<open>plan(x0, z0)\<close>; the loop is \<open>n = N_sim\<close>.\<close>

definition plan_steps ::
  "('s, 'u, 'w) RHCPlanner \<Rightarrow> vec \<Rightarrow> vec \<Rightarrow> nat \<Rightarrow> 'w \<Rightarrow> error + logs \<times> 'w" where
  "plan_steps p x0 z0 n w =
     (let nx = length x0;
          nz = length z0;
          nz1 = num_opn_P1 (collab p);
          nz2 = num_opn_P2 (collab p)
      in foldE (step p nx nz nz1 nz2 z0) [0..<n]
               (init_logs (N_sim p) nz1 nz2 x0 z0, w))"

text \<open>
  \<open>plan(x0, z0)\<close>: the outcome, and the planner after the call.  The attributes are
  assigned after the loop only, so a call that raises leaves the planner as it was.  The
  \<open>print\<close> calls of the loop are left out.
\<close>

definition plan ::
  "('s, 'u, 'w) RHCPlanner \<Rightarrow> vec \<Rightarrow> vec \<Rightarrow> 'w \<Rightarrow> (error + 'w) \<times> ('s, 'u, 'w) RHCPlanner" where
  "plan p x0 z0 w =
     (case plan_steps p x0 z0 (N_sim p) w of
        Inl e \<Rightarrow> (Inl e, p)
      | Inr (L, w) \<Rightarrow>
          (Inr w, p\<lparr>xs := Some (loc_xs L), zs := Some (loc_zs L),
                    Hs := Some (loc_Hs L), PoI := Some (loc_PoI L)\<rparr>))"

section \<open>Shapes\<close>

text \<open>
  \<open>grid_shape a r c\<close>: the array \<open>a\<close>, kept as a list of lists, has \<open>r\<close> entries along the
  outer list, each of length \<open>c\<close>.  For a trajectory array this is shape \<open>(c, r)\<close>: \<open>r\<close>
  time columns of length \<open>c\<close>.
\<close>

definition grid_shape :: "'a list list \<Rightarrow> nat \<Rightarrow> nat \<Rightarrow> bool" where
  "grid_shape a r c = (length a = r \<and> list_all (\<lambda>row. length row = c) a)"

definition arrays_shape :: "nat \<Rightarrow> nat \<Rightarrow> subgame_arrays \<Rightarrow> bool" where
  "arrays_shape nz1 nz2 A =
     (grid_shape (Z1_k A) nz1 nz2 \<and> grid_shape (Z2_k A) nz1 nz2 \<and>
      grid_shape (zeta1_k A) nz1 nz2 \<and> grid_shape (zeta2_k A) nz1 nz2 \<and>
      grid_shape (xnom_k A) nz1 nz2 \<and>
      grid_shape (nom_cost1_k A) 2 2 \<and> grid_shape (nom_cost2_k A) 2 2)"

text \<open>
  The shapes of the four result arrays: \<open>xs\<close> is \<open>nx\<close> by \<open>N + 1\<close>, \<open>zs\<close> is \<open>nz\<close> by
  \<open>N + 1\<close>, \<open>Hs\<close> is \<open>n\<close> by \<open>n\<close> by \<open>N\<close>, \<open>PoI\<close> is 2 by \<open>N\<close>.
\<close>

definition result_shapes :: "nat \<Rightarrow> nat \<Rightarrow> nat \<Rightarrow> nat \<Rightarrow> traj \<Rightarrow> traj \<Rightarrow> mat list \<Rightarrow> vec list \<Rightarrow> bool" where
  "result_shapes nx nz n N X Z H P =
     (grid_shape X (N + 1) nx \<and> grid_shape Z (N + 1) nz \<and>
      length H = N \<and> list_all (\<lambda>M. grid_shape M n n) H \<and>
      grid_shape P N 2)"

definition logs_shape :: "nat \<Rightarrow> nat \<Rightarrow> nat \<Rightarrow> nat \<Rightarrow> logs \<Rightarrow> bool" where
  "logs_shape nx nz n N L = result_shapes nx nz n N (loc_xs L) (loc_zs L) (loc_Hs L) (loc_PoI L)"

section \<open>Example objects\<close>

text \<open>
  Two quadratic state costs over a horizon of two steps, one over a horizon of no step, a
  box cost and a proximity cost.
\<close>

definition quad_example :: cost where
  "quad_example = \<lparr>name = ''quad'', horizon = Some 2, x_dim = Some 1, ui_dim = Some 1,
                    kind = QuadraticCost 0 1 True\<rparr>"

definition quad_example2 :: cost where
  "quad_example2 = \<lparr>name = ''quad2'', horizon = Some 2, x_dim = Some 1, ui_dim = Some 1,
                     kind = QuadraticCost 0 0 True\<rparr>"

definition quad_example0 :: cost where
  "quad_example0 = \<lparr>name = ''quad0'', horizon = Some 0, x_dim = Some 1, ui_dim = Some 1,
                     kind = QuadraticCost 0 1 True\<rparr>"

definition example_traj_cost :: "cost \<Rightarrow> vec" where
  "example_traj_cost c = (if c = quad_example then [4, 16] else [9, 25])"


definition proximity_example :: cost where
  "proximity_example = \<lparr>name = ''prox'', horizon = Some 1, x_dim = Some 4, ui_dim = Some 1,
                         kind = ProductStateProximityCostTwoPlayer [(0, 1), (2, 3)] 5\<rparr>"

text \<open>
  A planner over one opinion mode per player (\<open>nz1 = nz2 = 1\<close>, so \<open>nz = 4\<close>) and a
  one-dimensional physical state.  The solver's operating point has two time columns; the
  opinion model returns the constant derivative \<open>(2, 2, 2, 2)\<close> with timestep \<open>1 / 2\<close>; the
  physical system keeps its state.
\<close>

definition example_op_point :: op_point where
  "example_op_point =
     \<lparr>op_xs = [[0], [0]], op_Zs = [[[[0]], [[0]]]], op_zetas = [[[0], [0]]],
      op_nom_costs = [0, 0]\<rparr>"

definition example_collab :: "nat \<Rightarrow> (nat, real, unit) collaborators" where
  "example_collab nz1 =
     \<lparr>solver_run = (\<lambda>s x w. Some w),
      best_operating_point = (\<lambda>s w. example_op_point),
      plan_level_0 = (\<lambda>player x z z_opp sgs w. Some (0, w)),
      plan_level_1 = (\<lambda>player x z z_opp a a_opp sgs sg w. Some (0, w)),
      cont_time_dyn = (\<lambda>x_jnt sg w. Some (([2, 2, 2, 2], [[0, 0], [0, 0]], 0, 0), w)),
      disc_time_dyn = (\<lambda>x us w. Some (x, w)),
      T = 1 / 2,
      num_opn_P1 = nz1,
      num_opn_P2 = 1\<rparr>"

definition example_planner :: "string \<Rightarrow> nat \<Rightarrow> (nat, real, unit) RHCPlanner" where
  "example_planner m N =
     \<lparr>subgames = [[0]], N_sim = N, collab = example_collab 1, method_name = m, look_ahead = 1,
      xs = None, zs = None, Hs = None, PoI = None\<rparr>"

text \<open>The same with three opinion modes for player 1.\<close>

definition example_planner3 :: "(nat, real, unit) RHCPlanner" where
  "example_planner3 =
     \<lparr>subgames = [[0], [0], [0]], N_sim = 1, collab = example_collab 3,
      method_name = ''QMDPL0'', look_ahead = 1,
      xs = None, zs = None, Hs = None, PoI = None\<rparr>"

text \<open>The arrays and the bundle of the example after each step from \<open>z0 = (1, 2, 0, 0)\<close>.\<close>

definition example_arrays :: subgame_arrays where
  "example_arrays =
     \<lparr>Z1_k = [[[[0]]]], Z2_k = [[[[0]]]], zeta1_k = [[[0]]], zeta2_k = [[[0]]],
      nom_cost1_k = [[0, 0], [0, 0]], nom_cost2_k = [[0, 0], [0, 0]], xnom_k = [[[0]]]\<rparr>"

definition example_bundle :: "vec \<Rightarrow> vec \<Rightarrow> subgame" where
  "example_bundle znom1 znom2 =
     \<lparr>sg_Z1 = [[[[0]]]], sg_Z2 = [[[[0]]]], sg_zeta1 = [[[0]]], sg_zeta2 = [[[0]]],
      sg_xnom = [[[0]]], sg_znom1 = znom1, sg_znom2 = znom2,
      sg_nom_cost1 = [[0, 0], [0, 0]], sg_nom_cost2 = [[0, 0], [0, 0]]\<rparr>"

definition example_logs :: "traj \<Rightarrow> logs" where
  "example_logs Z =
     \<lparr>loc_xs = [[0], [0], [0]], loc_zs = Z,
      loc_Hs = [[[0, 0], [0, 0]], [[0, 0], [0, 0]]], loc_PoI = [[0, 0], [0, 0]]\<rparr>"

section \<open>Basic facts\<close>

lemma bindE_Inl [simp]: "bindE (Inl e) f = Inl e"
  by (simp add: bindE_def)

lemma bindE_Inr [simp]: "bindE (Inr a) f = f a"
  by (simp add: bindE_def)

lemma bindE_eq_Inr: "bindE m f = Inr b \<longleftrightarrow> (\<exists>a. m = Inr a \<and> f a = Inr b)"
  by (cases m) simp_all

lemma bindE_eq_Inl: "bindE m f = Inl e \<longleftrightarrow> m = Inl e \<or> (\<exists>a. m = Inr a \<and> f a = Inl e)"
  by (cases m) simp_all

lemma foldE_append: "foldE f (as @ bs) s = bindE (foldE f as s) (foldE f bs)"
  by (induction as arbitrary: s) (simp_all add: bindE_def split: sum.splits)

lemma foldE_snoc: "foldE f (as @ [a]) s = bindE (foldE f as s) (f a)"
  by (simp add: foldE_append fun_eq_iff bindE_def split: sum.splits)

lemma jnp_index_in_range: "i < length a \<Longrightarrow> jnp_index a i = Inr (a ! i)"
  by (auto simp: jnp_index_def min_def)

lemma mapE_snoc:
  "mapE f (as @ [a]) = bindE (mapE f as) (\<lambda>bs. bindE (f a) (\<lambda>b. Inr (bs @ [b])))"
  by (induction as) (simp_all add: bindE_def split: sum.splits)

lemma mapE_Inr_nth:
  "mapE f as = Inr bs \<Longrightarrow> length bs = length as \<and> (\<forall>i<length as. f (as ! i) = Inr (bs ! i))"
proof (induction as arbitrary: bs)
  case Nil
  then show ?case by simp
next
  case (Cons a as)
  then obtain b bs' where b: "f a = Inr b" and bs': "mapE f as = Inr bs'" and eq: "bs = b # bs'"
    by (auto simp: bindE_eq_Inr)
  from Cons.IH[OF bs'] b eq show ?case
    by (auto simp: nth_Cons split: nat.splits)
qed

lemma mapE_total:
  "(\<forall>a\<in>set as. \<exists>b. f a = Inr b) \<Longrightarrow> \<exists>bs. mapE f as = Inr bs"
  by (induction as) auto

lemma bindE_twice: "bindE m (\<lambda>_. bindE m f) = bindE m f"
  by (cases m) simp_all

lemma fori_loop_iterations:
  "lower < upper \<Longrightarrow> fori_loop lower upper body init = foldE body [lower..<upper] init"
  by (simp add: fori_loop_def upt_rec[of lower upper] bindE_twice)

lemma fori_loop_Inr:
  "fori_loop lower upper body init = Inr r \<Longrightarrow> foldE body [lower..<upper] init = Inr r"
  by (auto simp: fori_loop_def bindE_eq_Inr)

lemma jnp_at_set_nonempty: "a \<noteq> [] \<Longrightarrow> jnp_at_set a i v = Inr (a[i := v])"
  by (simp add: jnp_at_set_def)

lemma traj_loop_mapE:
  assumes "length x = N" "length ui = N" "n \<le> N" "length init = N"
  shows "foldE (get_traj_cost_looper c x ui) [0..<n] init =
         bindE (mapE (\<lambda>k. get_cost c (x ! k) (ui ! k) k) [0..<n]) (\<lambda>vs. Inr (vs @ drop n init))"
  using assms(3)
proof (induction n)
  case 0
  then show ?case by simp
next
  case (Suc n)
  then have n: "n < N" by simp
  have step: "get_traj_cost_looper c x ui n costs =
      bindE (get_cost c (x ! n) (ui ! n) n) (\<lambda>v. Inr (costs[n := v]))"
    if "length costs = N" for costs
  proof -
    have "costs \<noteq> []" using that n by auto
    then show ?thesis
      using n assms(1,2)
      by (simp add: get_traj_cost_looper_def jnp_index_in_range jnp_at_set_nonempty)
  qed
  have upd: "(vs @ drop n init)[n := v] = (vs @ [v]) @ drop (Suc n) init"
    if "length vs = n" for vs v
    using that n assms(4)
    by (simp add: list_update_append upd_conv_take_nth_drop)
  show ?case
  proof (cases "mapE (\<lambda>k. get_cost c (x ! k) (ui ! k) k) [0..<n]")
    case (Inl e)
    then show ?thesis using Suc n by (simp add: foldE_snoc mapE_snoc)
  next
    case (Inr vs)
    then have len: "length vs = n" using mapE_Inr_nth[OF Inr] by simp
    have "length (vs @ drop n init) = N" using len n assms(4) by simp
    note st = step[OF this]
    show ?thesis
      using Suc n Inr
      by (cases "get_cost c (x ! n) (ui ! n) n")
         (simp_all add: foldE_snoc mapE_snoc st upd[OF len])
  qed
qed

lemma foldE_length_inv:
  assumes "\<And>i s s'. f i s = Inr s' \<Longrightarrow> P s \<Longrightarrow> P s'"
  shows "foldE f is s = Inr s' \<Longrightarrow> P s \<Longrightarrow> P s'"
proof (induction "is" arbitrary: s)
  case Nil
  then show ?case by simp
next
  case (Cons i "is")
  then obtain s1 where s1: "f i s = Inr s1" and rest: "foldE f is s1 = Inr s'"
    by (auto simp: bindE_eq_Inr)
  from assms[OF s1 Cons.prems(2)] Cons.IH[OF rest] show ?case by simp
qed

lemma get_traj_cost_length:
  assumes "horizon c = Some N" "get_traj_cost c x ui = Inr t"
  shows "length t = N"
proof -
  have "foldE (get_traj_cost_looper c x ui) [0..<N] (replicate N 0) = Inr t"
    using assms by (simp add: get_traj_cost_def fori_loop_Inr)
  moreover have "length s' = N"
    if "get_traj_cost_looper c x ui i s = Inr s'" "length s = N" for i s s'
    using that
    by (auto simp: get_traj_cost_looper_def bindE_eq_Inr jnp_at_set_def split: if_splits)
  ultimately show ?thesis
    using foldE_length_inv[where P = "\<lambda>s. length s = N" and f = "get_traj_cost_looper c x ui"]
    by fastforce
qed

lemma registered_fields:
  "costs (registered regs) = map fst regs \<and>
   args (registered regs) = map (fst \<circ> snd) regs \<and>
   weights (registered regs) = map (snd \<circ> snd) regs"
proof (induction regs rule: rev_induct)
  case Nil
  then show ?case by (simp add: registered_def PlayerCost_init_def)
next
  case (snoc r regs)
  then show ?case
    by (cases r) (simp add: registered_def add_cost_def)
qed

lemma np_add_same_length:
  "length a = length b \<Longrightarrow> np_add a b = Inr (map2 (+) a b)"
  by (simp add: np_add_def)

lemma fold_terms_Array:
  assumes "\<forall>(c, a, weight) \<in> set regs. get_traj_cost c x ui = Inr (tc c) \<and> length (tc c) = N"
    and "length acc = N"
  shows "foldE (\<lambda>(c, weight) total_cost.
              bindE (get_traj_cost c x ui) (\<lambda>t.
                add_total total_cost (map (\<lambda>v. weight * v) t)))
           (zip (map fst regs) (map (snd \<circ> snd) regs)) (Array acc) =
         Inr (Array (map (\<lambda>j. acc ! j + (\<Sum>(c, a, weight) \<leftarrow> regs. weight * tc c ! j)) [0..<N]))"
  using assms
proof (induction regs arbitrary: acc)
  case Nil
  then show ?case by (auto intro: nth_equalityI)
next
  case (Cons r regs)
  obtain c a weight where r: "r = (c, a, weight)" by (cases r)
  from Cons.prems r have tc: "get_traj_cost c x ui = Inr (tc c)" and len: "length (tc c) = N"
    by auto
  let ?acc' = "map2 (+) acc (map (\<lambda>v. weight * v) (tc c))"
  have len': "length ?acc' = N" using len Cons.prems(2) by simp
  have rest: "\<forall>(c, a, weight) \<in> set regs. get_traj_cost c x ui = Inr (tc c) \<and> length (tc c) = N"
    using Cons.prems(1) by simp
  have "map (\<lambda>j. ?acc' ! j + (\<Sum>(c, a, weight) \<leftarrow> regs. weight * tc c ! j)) [0..<N] =
        map (\<lambda>j. acc ! j + (\<Sum>(c, a, weight) \<leftarrow> r # regs. weight * tc c ! j)) [0..<N]"
    using len Cons.prems(2) r by (auto simp: algebra_simps)
  then show ?case
    using Cons.IH[OF rest len'] r tc len Cons.prems(2)
    by (simp add: np_add_same_length)
qed

lemma mapE_cong_Inr:
  "(\<And>a. a \<in> set as \<Longrightarrow> f a = Inr (g a)) \<Longrightarrow> mapE f as = Inr (map g as)"
  by (induction as) simp_all

lemma seed_nth: "i < length x \<Longrightarrow> seed x j ! i = Dual (x ! i) (if i = j then 1 else 0)"
  by (simp add: seed_def)

lemma seed_length [simp]: "length (seed x j) = length x"
  by (simp add: seed_def)

lemma jacfwd_total:
  assumes "\<And>y. length y = length x \<Longrightarrow> f y = Inr (g y)"
  shows "jacfwd f x = Inr (map (\<lambda>i. eps (g (seed x i))) [0..<length x])"
proof -
  have "mapE (\<lambda>i. bindE (f (seed x i)) (\<lambda>y. Inr (eps y))) [0..<length x] =
        Inr (map (\<lambda>i. eps (g (seed x i))) [0..<length x])"
    by (rule mapE_cong_Inr) (simp add: assms)
  then show ?thesis by (simp add: jacfwd_def assms)
qed

lemma jacfwd_vec_total:
  assumes "\<And>y. length y = length x \<Longrightarrow> G y = Inr (map (\<lambda>j. h y j) [0..<length x])"
  shows "jacfwd_vec G x =
         Inr (map (\<lambda>j. map (\<lambda>i. eps (h (seed x i) j)) [0..<length x]) [0..<length x])"
proof -
  have "mapE (\<lambda>i. bindE (G (seed x i)) (\<lambda>y. Inr (map eps y))) [0..<length x] =
        Inr (map (\<lambda>i. map eps (map (\<lambda>j. h (seed x i) j) [0..<length x])) [0..<length x])"
    by (rule mapE_cong_Inr) (simp add: assms)
  then show ?thesis by (simp add: jacfwd_vec_def assms)
qed

lemma hessian_total:
  assumes "\<And>y. length y = length x \<Longrightarrow> f y = Inr (g y)"
  shows "hessian f x =
         Inr (map (\<lambda>j. map (\<lambda>i. eps (eps (g (seed (seed x i) j)))) [0..<length x]) [0..<length x])"
proof -
  have "jacfwd f y = Inr (map (\<lambda>j. eps (g (seed y j))) [0..<length x])"
    if "length y = length x" for y
    using jacfwd_total[of y f g] that assms by simp
  from jacfwd_vec_total[of x "jacfwd f" "\<lambda>y j. eps (g (seed y j))", OF this]
  show ?thesis by (simp add: hessian_def)
qed

lemma dual_power2: "(p::('a::comm_ring_1) dual)\<^sup>2 = p * (p * 1)"
  by (simp add: power2_eq_square)

lemma dual_sq_eps:
  "eps ((Dual a b - dconst c)\<^sup>2) = 2 * (a - c) * (b::real)"
  by (simp add: dual_power2 dconst_def minus_dual_def times_dual_def one_dual_def)

lemma dual_dual_sq_eps:
  "eps (eps ((Dual (Dual a b) (Dual c d) - dconst (dconst e))\<^sup>2)) =
     2 * (a - e) * d + 2 * b * (c::real)"
  by (simp add: dual_power2 dconst_def minus_dual_def times_dual_def plus_dual_def
        one_dual_def zero_dual_def)

text \<open>The tangent that the dual numbers carry through \<open>(x - origin)^2\<close> is its derivative.\<close>

lemma dual_tangent_is_derivative:
  "((\<lambda>t. (t - origin)\<^sup>2) has_real_derivative eps ((Dual a 1 - dconst origin)\<^sup>2)) (at a)"
  unfolding dual_sq_eps
  by (auto intro!: derivative_eq_intros)

lemma unit_vec: "d < n \<Longrightarrow> map (\<lambda>i. if d = i then v else 0) [0..<n] = (replicate n 0)[d := v]"
  by (auto intro!: nth_equalityI simp: nth_list_update)


section \<open>Properties of cost.py\<close>

text \<open>
  Claim C1.  For a player cost with at least one registered term, all terms sharing the
  horizon \<open>N\<close> and each trajectory cost \<open>get_traj_cost(x, u)\<close> returning \<open>tc c\<close>,
  \<open>PlayerCost.get_cost(x, u, k)\<close> returns an array with one value per timestep of the
  horizon: entry \<open>j\<close> is the sum over the registered terms of the weight times entry \<open>j\<close>
  of the term's trajectory cost.  The result is the same for every \<open>k\<close>.
\<close>

theorem PlayerCost_get_cost_weighted_sum:
  assumes "regs \<noteq> []"
    and "\<forall>(c, a, weight) \<in> set regs. horizon c = Some N \<and> get_traj_cost c x ui = Inr (tc c)"
  shows "PlayerCost_get_cost (registered regs) x ui k = Inr (Array (weighted_traj_sum regs tc N)) \<and>
         length (weighted_traj_sum regs tc N) = N \<and>
         PlayerCost_get_cost (registered regs) x ui k' = PlayerCost_get_cost (registered regs) x ui k"
proof -
  obtain c a weight rest where regs: "regs = (c, a, weight) # rest"
    using assms(1) by (cases regs) auto
  have all: "\<forall>(c, a, weight) \<in> set regs. get_traj_cost c x ui = Inr (tc c) \<and> length (tc c) = N"
    using assms(2) get_traj_cost_length by fastforce
  then have tc: "get_traj_cost c x ui = Inr (tc c)" and len: "length (tc c) = N"
    and rest: "\<forall>(c, a, weight) \<in> set rest. get_traj_cost c x ui = Inr (tc c) \<and> length (tc c) = N"
    using regs by auto
  let ?acc = "map (\<lambda>a. 0 + a) (map (\<lambda>v. weight * v) (tc c))"
  have "map (\<lambda>j. ?acc ! j + (\<Sum>(c, a, weight) \<leftarrow> rest. weight * tc c ! j)) [0..<N] =
        weighted_traj_sum regs tc N"
    using len regs by (simp add: weighted_traj_sum_def)
  then have "PlayerCost_get_cost (registered regs) x ui k = Inr (Array (weighted_traj_sum regs tc N))"
    using fold_terms_Array[OF rest, of ?acc] tc len regs
    by (simp add: PlayerCost_get_cost_def registered_fields)
  moreover have "length (weighted_traj_sum regs tc N) = N"
    by (simp add: weighted_traj_sum_def)
  moreover have "PlayerCost_get_cost (registered regs) x ui k' = PlayerCost_get_cost (registered regs) x ui k"
    by (simp add: PlayerCost_get_cost_def)
  ultimately show ?thesis by blast
qed

theorem PlayerCost_get_cost_weighted_sum_witness:
  "PlayerCost_get_cost (registered [(quad_example, ArgX, 2), (quad_example2, ArgX, 1 / 2)])
     [[3], [5]] [[0], [0]] 7 = Inr (Array [25 / 2, 89 / 2])"
proof -
  have ne: "quad_example \<noteq> quad_example2"
    by (simp add: quad_example_def quad_example2_def)
  have t1: "get_traj_cost quad_example [[3], [5]] [[0], [0]] = Inr [4, 16]"
    by (simp add: get_traj_cost_def fori_loop_def quad_example_def upt_rec get_traj_cost_looper_def
        jnp_index_def jnp_at_set_def get_cost_def QuadraticCost_get_cost_def numeral_2_eq_2)
  have t2: "get_traj_cost quad_example2 [[3], [5]] [[0], [0]] = Inr [9, 25]"
    by (simp add: get_traj_cost_def fori_loop_def quad_example2_def upt_rec get_traj_cost_looper_def
        jnp_index_def jnp_at_set_def get_cost_def QuadraticCost_get_cost_def numeral_2_eq_2)
  have h: "\<forall>(c, a, weight) \<in> set [(quad_example, ArgX, 2), (quad_example2, ArgX, 1 / 2)].
             horizon c = Some 2 \<and> get_traj_cost c [[3], [5]] [[0], [0]] = Inr (example_traj_cost c)"
    using ne t1 t2 by (simp add: example_traj_cost_def quad_example_def quad_example2_def)
  have "weighted_traj_sum [(quad_example, ArgX, 2), (quad_example2, ArgX, 1 / 2)]
          example_traj_cost 2 = [25 / 2, 89 / 2]"
    using ne by (simp add: weighted_traj_sum_def example_traj_cost_def upt_rec)
  then show ?thesis
    using PlayerCost_get_cost_weighted_sum[OF _ h, of 7 7] by simp
qed

text \<open>
  Claim C2, as the source has it.  For a cost with horizon \<open>N \<ge> 1\<close> and trajectories \<open>x\<close>,
  \<open>u\<close> of \<open>N\<close> columns, \<open>get_traj_cost(x, u)\<close> is the sequence of the values
  \<open>get_cost(x[:, k], u[:, k], k)\<close> for \<open>k = 0, \<dots>, N - 1\<close>, each computed from column \<open>k\<close>
  alone (the first call that raises, if any, decides the error): it returns whenever every
  call returns, and what it returns has length \<open>N\<close> with the value of \<open>get_cost\<close> on column
  \<open>k\<close> at position \<open>k\<close>.  The cost object is an argument only: the evaluation is a function
  of the object and \<open>(x, u)\<close>.  With horizon 0 and trajectories of no column the call raises
  an index error.
\<close>

theorem get_traj_cost_columns:
  assumes "horizon c = Some N" "length x = N" "length ui = N"
  shows "(1 \<le> N \<longrightarrow>
            get_traj_cost c x ui = mapE (\<lambda>k. get_cost c (x ! k) (ui ! k) k) [0..<N] \<and>
            ((\<forall>k<N. \<exists>v. get_cost c (x ! k) (ui ! k) k = Inr v) \<longrightarrow>
               (\<exists>costs. get_traj_cost c x ui = Inr costs)) \<and>
            (\<forall>costs. get_traj_cost c x ui = Inr costs \<longrightarrow>
               length costs = N \<and> (\<forall>k<N. get_cost c (x ! k) (ui ! k) k = Inr (costs ! k)))) \<and>
         (N = 0 \<longrightarrow> get_traj_cost c x ui = Inl (IndexError EmptyAxis))"
proof -
  let ?f = "\<lambda>k. get_cost c (x ! k) (ui ! k) k"
  have zero: "get_traj_cost c x ui = Inl (IndexError EmptyAxis)" if "N = 0"
    using that assms
    by (simp add: get_traj_cost_def fori_loop_def get_traj_cost_looper_def jnp_index_def)
  have pos: "get_traj_cost c x ui = mapE ?f [0..<N] \<and>
            ((\<forall>k<N. \<exists>v. ?f k = Inr v) \<longrightarrow> (\<exists>costs. get_traj_cost c x ui = Inr costs)) \<and>
            (\<forall>costs. get_traj_cost c x ui = Inr costs \<longrightarrow>
               length costs = N \<and> (\<forall>k<N. ?f k = Inr (costs ! k)))"
    if N: "1 \<le> N"
  proof -
    have eq: "get_traj_cost c x ui = mapE ?f [0..<N]"
      using assms N traj_loop_mapE[of x N ui N "replicate N 0" c]
      by (cases "mapE ?f [0..<N]") (simp_all add: get_traj_cost_def fori_loop_iterations)
    have tot: "(\<forall>k<N. \<exists>v. ?f k = Inr v) \<longrightarrow> (\<exists>costs. get_traj_cost c x ui = Inr costs)"
      using mapE_total[of "[0..<N]" ?f] eq by auto
    have ent: "\<forall>costs. get_traj_cost c x ui = Inr costs \<longrightarrow>
              length costs = N \<and> (\<forall>k<N. ?f k = Inr (costs ! k))"
    proof (intro allI impI)
      fix costs assume "get_traj_cost c x ui = Inr costs"
      then have "mapE ?f [0..<N] = Inr costs" using eq by simp
      from mapE_Inr_nth[OF this] show "length costs = N \<and> (\<forall>k<N. ?f k = Inr (costs ! k))"
        by simp
    qed
    from eq tot ent show ?thesis by blast
  qed
  from zero pos show ?thesis by blast
qed

theorem get_traj_cost_columns_witness:
  "get_traj_cost quad_example [[3], [5]] [[0], [0]] = Inr [4, 16]"
proof -
  have "horizon quad_example = Some 2"
    by (simp add: quad_example_def)
  from get_traj_cost_columns[OF this, of "[[3], [5]]" "[[0], [0]]"] show ?thesis
    by (simp add: upt_rec get_cost_def quad_example_def QuadraticCost_get_cost_def jnp_index_def)
qed

text \<open>
  A cost with horizon 0 on trajectories of shape \<open>(1, 0)\<close>: the call does not return the
  empty sequence, it raises.
\<close>

theorem get_traj_cost_zero_horizon_raises:
  "horizon quad_example0 = Some 0 \<and> length ([] :: traj) = 0 \<and>
   get_traj_cost quad_example0 [] [] = Inl (IndexError EmptyAxis)"
  by (simp add: quad_example0_def get_traj_cost_def fori_loop_def get_traj_cost_looper_def
      jnp_index_def)

text \<open>Whatever the trajectories, a cost with horizon 0 raises.\<close>

lemma get_traj_cost_no_step_raises:
  assumes "horizon c = Some 0"
  shows "\<exists>e. get_traj_cost c x ui = Inl e"
proof -
  have "\<exists>e. get_traj_cost_looper c x ui 0 [] = Inl e"
    unfolding get_traj_cost_looper_def
    by (cases "jnp_index x 0"; cases "jnp_index ui 0"; simp)
       (rename_tac xk uk, case_tac "get_cost c xk uk 0"; simp add: jnp_at_set_def)
  then show ?thesis
    using assms by (auto simp: get_traj_cost_def fori_loop_def)
qed

text \<open>
  Claim C3.  For a \<open>QuadraticCost\<close> on coordinate \<open>d\<close> of the state (\<open>is_x\<close> true) with
  origin \<open>origin\<close>, and a state \<open>x\<close> that has coordinate \<open>d\<close>: \<open>get_grad\<close> returns the state
  gradient that is \<open>2 * (x[d] - origin)\<close> at index \<open>d\<close> and 0 elsewhere, and a zero control
  gradient; \<open>get_hess\<close> returns the state Hessian that is 2 at \<open>[d, d]\<close> and 0 elsewhere,
  and a zero control Hessian.
\<close>

theorem QuadraticCost_grad_hess_closed_form:
  assumes "d < length x"
  shows "QuadraticCost_get_grad d origin True x ui k =
           Inr ((replicate (length x) 0)[d := 2 * (x ! d - origin)], replicate (length ui) 0) \<and>
         QuadraticCost_get_hess d origin True x ui k =
           Inr ((replicate (length x) (replicate (length x) 0))[d := (replicate (length x) 0)[d := 2]],
                replicate (length ui) (replicate (length ui) 0))"
proof -
  let ?n = "length x" and ?m = "length ui"
  have fx: "QuadraticCost_get_cost d c True y v k = Inr ((y ! d - c)\<^sup>2)"
    if "length y = ?n" for y v :: "('b::{minus,power}) list" and c
    using that assms by (simp add: QuadraticCost_get_cost_def jnp_index_in_range)
  have gx: "jacfwd (\<lambda>y. QuadraticCost_get_cost d (dconst origin) True y (map dconst ui) k) x =
        Inr ((replicate ?n 0)[d := 2 * (x ! d - origin)])"
  proof -
    have "map (\<lambda>i. eps ((seed x i ! d - dconst origin)\<^sup>2)) [0..<?n] =
          map (\<lambda>i. if d = i then 2 * (x ! d - origin) else 0) [0..<?n]"
      using assms by (simp add: seed_nth dual_sq_eps)
    also have "\<dots> = (replicate ?n 0)[d := 2 * (x ! d - origin)]"
      using assms by (rule unit_vec)
    finally show ?thesis
      using jacfwd_total[of x "\<lambda>y. QuadraticCost_get_cost d (dconst origin) True y (map dconst ui) k"
          "\<lambda>y. (y ! d - dconst origin)\<^sup>2", OF fx]
      by simp
  qed
  have gu: "jacfwd (\<lambda>v. QuadraticCost_get_cost d (dconst origin) True (map dconst x) v k) ui =
        Inr (replicate ?m 0)"
  proof -
    have "map (\<lambda>i::nat. eps ((map dconst x ! d - dconst origin)\<^sup>2)) [0..<?m] = replicate ?m (0::real)"
      using assms by (simp add: dconst_def dual_sq_eps[unfolded dconst_def] map_replicate_const)
    then show ?thesis
      using jacfwd_total[of ui "\<lambda>v. QuadraticCost_get_cost d (dconst origin) True (map dconst x) v k"
          "\<lambda>v. (map dconst x ! d - dconst origin)\<^sup>2", OF fx[of "map dconst x"]]
      by simp
  qed
  have hx: "hessian (\<lambda>y. QuadraticCost_get_cost d (dconst (dconst origin)) True
                           y (map (dconst \<circ> dconst) ui) k) x =
        Inr ((replicate ?n (replicate ?n 0))[d := (replicate ?n 0)[d := 2]])"
  proof -
    have ent: "eps (eps ((seed (seed x i) j ! d - dconst (dconst origin))\<^sup>2)) =
          (if d = j \<and> d = i then 2 else 0)" for i j
    proof -
      have "seed (seed x i) j ! d =
            Dual (Dual (x ! d) (if d = i then 1 else 0)) (Dual (if d = j then 1 else 0) 0)"
        using assms by (simp add: seed_nth one_dual_def zero_dual_def)
      then show ?thesis by (simp add: dual_dual_sq_eps)
    qed
    have "map (\<lambda>j. map (\<lambda>i. eps (eps ((seed (seed x i) j ! d - dconst (dconst origin))\<^sup>2)))
                 [0..<?n]) [0..<?n] =
          (replicate ?n (replicate ?n 0))[d := (replicate ?n 0)[d := 2]]"
      using assms by (auto intro!: nth_equalityI simp: ent nth_list_update)
    then show ?thesis
      using hessian_total[of x "\<lambda>y. QuadraticCost_get_cost d (dconst (dconst origin)) True
                           y (map (dconst \<circ> dconst) ui) k"
          "\<lambda>y. (y ! d - dconst (dconst origin))\<^sup>2", OF fx]
      by simp
  qed
  have hu: "hessian (\<lambda>v. QuadraticCost_get_cost d (dconst (dconst origin)) True
                           (map (dconst \<circ> dconst) x) v k) ui =
        Inr (replicate ?m (replicate ?m 0))"
  proof -
    have "eps (eps ((map (dconst \<circ> dconst) x ! d - dconst (dconst origin))\<^sup>2)) = (0::real)"
      using assms
      by (simp add: dconst_def zero_dual_def dual_dual_sq_eps[unfolded dconst_def zero_dual_def])
    then have "map (\<lambda>j::nat. map (\<lambda>i::nat.
                 eps (eps ((map (dconst \<circ> dconst) x ! d - dconst (dconst origin))\<^sup>2)))
                 [0..<?m]) [0..<?m] = replicate ?m (replicate ?m (0::real))"
      by (simp add: map_replicate_const)
    then show ?thesis
      using hessian_total[of ui "\<lambda>v. QuadraticCost_get_cost d (dconst (dconst origin)) True
                           (map (dconst \<circ> dconst) x) v k"
          "\<lambda>v. (map (dconst \<circ> dconst) x ! d - dconst (dconst origin))\<^sup>2",
          OF fx[of "map (dconst \<circ> dconst) x"]]
      by simp
  qed
  show ?thesis
    by (simp add: QuadraticCost_get_grad_def QuadraticCost_get_hess_def gx gu hx hu)
qed

theorem QuadraticCost_grad_hess_closed_form_witness:
  "QuadraticCost_get_grad 1 1 True [3, 7] [0] 0 = Inr ([0, 12], [0]) \<and>
   QuadraticCost_get_hess 1 1 True [3, 7] [0] 0 = Inr ([[0, 0], [0, 2]], [[0]])"
  using QuadraticCost_grad_hess_closed_form[of 1 "[3, 7]" 1 "[0]" 0]
  by (simp add: numeral_2_eq_2)




text \<open>
  Claim C10.  For a \<open>ProductStateProximityCostTwoPlayer\<close> over two players' position
  indices and a state \<open>x\<close> that has these coordinates, also when the two positions coincide,
  \<open>get_cost\<close> returns the sum over both players of
  \<open>min(exp(min(rel_dist - max_distance, 0)^2), 1e5)\<close>; the value is positive and at most
  \<open>2 * 1e5\<close>.
\<close>

theorem proximity_two_player_capped:
  assumes "kind c = ProductStateProximityCostTwoPlayer position_indices max_distance"
    and "2 \<le> length position_indices"
    and "position_indices ! 0 = (x1_idx, y1_idx)" and "position_indices ! 1 = (x2_idx, y2_idx)"
    and "x1_idx < length x" and "y1_idx < length x" and "x2_idx < length x" and "y2_idx < length x"
  shows "get_cost c x ui k =
           Inr (min (exp ((min (sqrt ((x ! x1_idx - x ! x2_idx)\<^sup>2 + (x ! y1_idx - x ! y2_idx)\<^sup>2)
                                 - max_distance) 0)\<^sup>2)) 100000 +
                min (exp ((min (sqrt ((x ! x2_idx - x ! x1_idx)\<^sup>2 + (x ! y2_idx - x ! y1_idx)\<^sup>2)
                                 - max_distance) 0)\<^sup>2)) 100000) \<and>
         (\<exists>v. get_cost c x ui k = Inr v \<and> 0 < v \<and> v \<le> 2 * 100000)"
proof -
  have val: "get_cost c x ui k =
           Inr (min (exp ((min (sqrt ((x ! x1_idx - x ! x2_idx)\<^sup>2 + (x ! y1_idx - x ! y2_idx)\<^sup>2)
                                 - max_distance) 0)\<^sup>2)) 100000 +
                min (exp ((min (sqrt ((x ! x2_idx - x ! x1_idx)\<^sup>2 + (x ! y2_idx - x ! y1_idx)\<^sup>2)
                                 - max_distance) 0)\<^sup>2)) 100000)"
  proof -
    have "0 < length position_indices" "1 < length position_indices"
      using assms(2) by auto
    then show ?thesis
      using assms(1,3-)
      by (simp add: get_cost_def py_index_def jnp_index_in_range proximity_max_exp_bound_def)
  qed
  have "0 < min (exp t) (100000::real) \<and> min (exp t) (100000::real) \<le> 100000" for t :: real
    by simp
  then have "0 < min (exp t) (100000::real) + min (exp t') 100000 \<and>
             min (exp t) (100000::real) + min (exp t') 100000 \<le> 2 * 100000" for t t' :: real
    by (simp add: add_pos_pos add_mono)
  with val show ?thesis by blast
qed

theorem proximity_two_player_capped_witness:
  "get_cost proximity_example [0, 0, 0, 0] [] 0 = Inr 200000"
proof -
  have k: "kind proximity_example = ProductStateProximityCostTwoPlayer [(0, 1), (2, 3)] 5"
    by (simp add: proximity_example_def)
  have "(1::real) + 1 \<le> exp 1" by (rule exp_ge_add_one_self)
  then have "(2::real) ^ 25 \<le> exp 1 ^ 25" by (intro power_mono) simp_all
  also have "\<dots> = exp (25::real)" using exp_of_nat_mult[of 25 "1::real"] by simp
  finally have "(100000::real) \<le> exp 25" by simp
  then show ?thesis
    using proximity_two_player_capped[OF k, of 0 1 2 3 "[0, 0, 0, 0]" "[]" 0]
    by (simp add: min_def)
qed

section \<open>Facts about the planning loop\<close>

lemma foldE_invariant:
  assumes "\<And>i s s'. i \<in> set is \<Longrightarrow> P s \<Longrightarrow> f i s = Inr s' \<Longrightarrow> P s'"
    and "P s" and "foldE f is s = Inr s'"
  shows "P s'"
  using assms
proof (induction "is" arbitrary: s)
  case Nil
  then show ?case by simp
next
  case (Cons i "is")
  from Cons.prems(3) obtain s1 where s1: "f i s = Inr s1" and rest: "foldE f is s1 = Inr s'"
    by (auto simp: bindE_eq_Inr)
  have p1: "P s1" using Cons.prems(1)[OF _ Cons.prems(2) s1] by simp
  have step: "P t'" if "j \<in> set is" "P t" "f j t = Inr t'" for j t t'
    using Cons.prems(1)[of j t t'] that by simp
  show ?case by (rule Cons.IH[OF step p1 rest])
qed

lemma foldE_neq_Inl:
  assumes "\<And>i s s'. i \<in> set is \<Longrightarrow> P s \<Longrightarrow> f i s = Inr s' \<Longrightarrow> P s'"
    and "\<And>i s. i \<in> set is \<Longrightarrow> P s \<Longrightarrow> f i s \<noteq> Inl E"
    and "P s"
  shows "foldE f is s \<noteq> Inl E"
  using assms
proof (induction "is" arbitrary: s)
  case Nil
  then show ?case by simp
next
  case (Cons i "is")
  show ?case
  proof (cases "f i s")
    case (Inl e)
    then show ?thesis using Cons.prems(2)[OF _ Cons.prems(3), of i] by auto
  next
    case (Inr s1)
    have p1: "P s1" using Cons.prems(1)[OF _ Cons.prems(3) Inr] by simp
    have step: "P t'" if "j \<in> set is" "P t" "f j t = Inr t'" for j t t'
      using Cons.prems(1)[of j t t'] that by simp
    have ok: "f j t \<noteq> Inl E" if "j \<in> set is" "P t" for j t
      using Cons.prems(2)[of j t] that by simp
    have "foldE f is s1 \<noteq> Inl E"
      by (rule Cons.IH[OF step ok p1])
    then show ?thesis using Inr by simp
  qed
qed

lemma bindE_neq_InlI:
  "m \<noteq> Inl E \<Longrightarrow> (\<And>a. m = Inr a \<Longrightarrow> f a \<noteq> Inl E) \<Longrightarrow> bindE m f \<noteq> Inl E"
  by (cases m) simp_all

lemma py_index_neq: "s \<noteq> s' \<Longrightarrow> py_index s l i \<noteq> Inl (IndexError s')"
  by (simp add: py_index_def)

lemma call_neq: "call r \<noteq> Inl (IndexError s)"
  by (simp add: call_def split: option.splits)

lemma bcast_vec_neq: "bcast_vec n v \<noteq> Inl (IndexError s)"
  by (simp add: bcast_vec_def)

lemma mapE_neq_Inl: "(\<And>a. f a \<noteq> Inl E) \<Longrightarrow> mapE f as \<noteq> Inl E"
  by (induction as) (auto simp: bindE_eq_Inl)

lemma bcast_mat_neq: "bcast_mat r c M \<noteq> Inl (IndexError s)"
  unfolding bcast_mat_def
  by (intro bindE_neq_InlI bcast_vec_neq mapE_neq_Inl)

lemma np_set2_in_bounds:
  "grid_shape a r c \<Longrightarrow> l1 < r \<Longrightarrow> l2 < c \<Longrightarrow> np_set2 s a l1 l2 v \<noteq> Inl e"
  by (auto simp: np_set2_def grid_shape_def list_all_length)

lemma np_set2_shape:
  "np_set2 s a l1 l2 v = Inr a' \<Longrightarrow> grid_shape a r c \<Longrightarrow> grid_shape a' r c"
  by (auto simp: np_set2_def grid_shape_def list_all_length nth_list_update split: if_splits)

lemma collect_subgame_shape:
  assumes "collect_subgame p nx x_k l1 l2 (A, w) = Inr (A', w')" and "arrays_shape nz1 nz2 A"
  shows "arrays_shape nz1 nz2 A'"
  using assms
  unfolding collect_subgame_def arrays_shape_def
  by (auto simp: bindE_eq_Inr Let_def dest: np_set2_shape)


lemma np_set2_neq: "s \<noteq> s' \<Longrightarrow> np_set2 s a l1 l2 v \<noteq> Inl (IndexError s')"
  by (simp add: np_set2_def)

lemma site_neqs:
  "Subgames \<noteq> NomCost" "OperatingPoint \<noteq> NomCost" "Bundle \<noteq> NomCost"
  "Subgames \<noteq> Bundle" "OperatingPoint \<noteq> Bundle" "NomCost \<noteq> Bundle"
  by simp_all

lemma collect_subgame_no_nom_cost_error:
  assumes "arrays_shape nz1 nz2 A" and "l1 < 2" and "l2 < 2"
  shows "collect_subgame p nx x_k l1 l2 (A, w) \<noteq> Inl (IndexError NomCost)"
proof -
  have g: "grid_shape (nom_cost1_k A) 2 2" "grid_shape (nom_cost2_k A) 2 2"
    using assms(1) by (simp_all add: arrays_shape_def)
  have n1: "np_set2 NomCost (nom_cost1_k A) l1 l2 v \<noteq> Inl e" for v e
    by (rule np_set2_in_bounds[OF g(1) assms(2,3)])
  have n2: "np_set2 NomCost (nom_cost2_k A) l1 l2 v \<noteq> Inl e" for v e
    by (rule np_set2_in_bounds[OF g(2) assms(2,3)])
  show ?thesis
    unfolding collect_subgame_def Let_def prod.case
    by (intro bindE_neq_InlI py_index_neq call_neq bcast_vec_neq bcast_mat_neq np_set2_neq
        site_neqs n1 n2) simp
qed

lemma collect_subgame_no_bundle_error:
  assumes "arrays_shape nz1 nz2 A" and "l1 < nz1" and "l2 < nz2"
  shows "collect_subgame p nx x_k l1 l2 (A, w) \<noteq> Inl (IndexError Bundle)"
proof -
  have g: "grid_shape (Z1_k A) nz1 nz2" "grid_shape (Z2_k A) nz1 nz2"
    "grid_shape (zeta1_k A) nz1 nz2" "grid_shape (zeta2_k A) nz1 nz2"
    "grid_shape (xnom_k A) nz1 nz2"
    using assms(1) by (simp_all add: arrays_shape_def)
  have b: "np_set2 Bundle (Z1_k A) l1 l2 v1 \<noteq> Inl e"
    "np_set2 Bundle (Z2_k A) l1 l2 v1 \<noteq> Inl e"
    "np_set2 Bundle (zeta1_k A) l1 l2 v2 \<noteq> Inl e"
    "np_set2 Bundle (zeta2_k A) l1 l2 v2 \<noteq> Inl e"
    "np_set2 Bundle (xnom_k A) l1 l2 v2 \<noteq> Inl e" for v1 v2 e
    by (rule np_set2_in_bounds[OF g(1) assms(2,3)], rule np_set2_in_bounds[OF g(2) assms(2,3)],
        rule np_set2_in_bounds[OF g(3) assms(2,3)], rule np_set2_in_bounds[OF g(4) assms(2,3)],
        rule np_set2_in_bounds[OF g(5) assms(2,3)])
  show ?thesis
    unfolding collect_subgame_def Let_def prod.case
    by (intro bindE_neq_InlI py_index_neq call_neq bcast_vec_neq bcast_mat_neq np_set2_neq
        site_neqs b) simp
qed

lemma init_arrays_shape: "arrays_shape nz1 nz2 (init_arrays nx nz1 nz2)"
  by (simp add: arrays_shape_def init_arrays_def grid_shape_def list_all_length)

lemma collect_subgames_no_index_error:
  fixes p :: "('s, 'u, 'w) RHCPlanner"
  shows "collect_subgames p nx nz1 nz2 x_k w \<noteq> Inl (IndexError Bundle)"
    and "nz1 \<le> 2 \<Longrightarrow> nz2 \<le> 2 \<Longrightarrow> collect_subgames p nx nz1 nz2 x_k w \<noteq> Inl (IndexError NomCost)"
proof -
  let ?P = "\<lambda>s :: subgame_arrays \<times> 'w. arrays_shape nz1 nz2 (fst s)"
  let ?inner = "\<lambda>l1. foldE (\<lambda>l2. collect_subgame p nx x_k l1 l2) [0..<nz2]"
  have keep: "?P s'" if "collect_subgame p nx x_k l1 l2 s = Inr s'" "?P s" for l1 l2 s s'
    using that collect_subgame_shape[of p nx x_k l1 l2 "fst s" "snd s" "fst s'" "snd s'" nz1 nz2]
    by simp
  have keep_inner: "?P s'" if "?inner l1 s = Inr s'" "?P s" for l1 s s'
    using foldE_invariant[where P = ?P and f = "\<lambda>l2. collect_subgame p nx x_k l1 l2", OF _ that(2,1)]
      keep by blast
  have inner_b: "?inner l1 s \<noteq> Inl (IndexError Bundle)" if "l1 < nz1" "?P s" for l1 s
  proof (rule foldE_neq_Inl[where P = ?P])
    show "?P s" by (rule that)
    show "?P t'" if "collect_subgame p nx x_k l1 l2 t = Inr t'" "?P t" for l2 t t'
      using keep that by blast
    show "collect_subgame p nx x_k l1 l2 t \<noteq> Inl (IndexError Bundle)"
      if "l2 \<in> set [0..<nz2]" "?P t" for l2 t
      using collect_subgame_no_bundle_error[of nz1 nz2 "fst t" l1 l2 p nx x_k "snd t"] that \<open>l1 < nz1\<close>
      by simp
  qed
  have inner_n: "?inner l1 s \<noteq> Inl (IndexError NomCost)"
    if "l1 < nz1" "?P s" "nz1 \<le> 2" "nz2 \<le> 2" for l1 s
  proof (rule foldE_neq_Inl[where P = ?P])
    show "?P s" by (rule that)
    show "?P t'" if "collect_subgame p nx x_k l1 l2 t = Inr t'" "?P t" for l2 t t'
      using keep that by blast
    show "collect_subgame p nx x_k l1 l2 t \<noteq> Inl (IndexError NomCost)"
      if "l2 \<in> set [0..<nz2]" "?P t" for l2 t
      using collect_subgame_no_nom_cost_error[of nz1 nz2 "fst t" l1 l2 p nx x_k "snd t"] that
        \<open>l1 < nz1\<close> \<open>nz1 \<le> 2\<close> \<open>nz2 \<le> 2\<close>
      by simp
  qed
  show "collect_subgames p nx nz1 nz2 x_k w \<noteq> Inl (IndexError Bundle)"
    unfolding collect_subgames_def
  proof (rule foldE_neq_Inl[where P = ?P])
    show "?P (init_arrays nx nz1 nz2, w)" by (simp add: init_arrays_shape)
    show "?P t'" if "?inner l1 t = Inr t'" "?P t" for l1 t t'
      using keep_inner that by blast
    show "?inner l1 t \<noteq> Inl (IndexError Bundle)" if "l1 \<in> set [0..<nz1]" "?P t" for l1 t
      using inner_b that by simp
  qed
  show "collect_subgames p nx nz1 nz2 x_k w \<noteq> Inl (IndexError NomCost)"
    if "nz1 \<le> 2" "nz2 \<le> 2"
    unfolding collect_subgames_def
  proof (rule foldE_neq_Inl[where P = ?P])
    show "?P (init_arrays nx nz1 nz2, w)" by (simp add: init_arrays_shape)
    show "?P t'" if "?inner l1 t = Inr t'" "?P t" for l1 t t'
      using keep_inner that by blast
    show "?inner l1 t \<noteq> Inl (IndexError NomCost)" if "l1 \<in> set [0..<nz1]" "?P t" for l1 t
      using inner_n that \<open>nz1 \<le> 2\<close> \<open>nz2 \<le> 2\<close> by simp
  qed
qed

lemma bcast_vec_length: "bcast_vec n v = Inr v' \<Longrightarrow> length v' = n"
  by (auto simp: bcast_vec_def split: if_splits)

lemma bcast_mat_shape:
  assumes "bcast_mat r c M = Inr M'"
  shows "grid_shape M' r c"
proof -
  from assms obtain M1 where m1: "bcast_vec r M = Inr M1" and m': "mapE (bcast_vec c) M1 = Inr M'"
    by (auto simp: bcast_mat_def bindE_eq_Inr)
  from mapE_Inr_nth[OF m'] have len: "length M' = length M1"
    and rows: "\<forall>i<length M1. bcast_vec c (M1 ! i) = Inr (M' ! i)" by simp_all
  have "length (M' ! i) = c" if "i < length M'" for i
    using rows that len bcast_vec_length by metis
  then show ?thesis
    using len bcast_vec_length[OF m1] by (simp add: grid_shape_def list_all_length)
qed

lemma step_evolve_Inr:
  assumes "step_evolve p nx nz nz1 nz2 k sg us L w = Inr (L', w')"
  shows "\<exists>z_dot H_k P1 P2 w1 z_sum z_next H' x_next x'.
           cont_time_dyn (collab p) (loc_xs L ! k @ loc_zs L ! k) sg w
             = Some ((z_dot, H_k, P1, P2), w1) \<and>
           np_add (loc_zs L ! k) (map (\<lambda>v. T (collab p) * v) z_dot) = Inr z_sum \<and>
           bcast_vec nz z_sum = Inr z_next \<and>
           bcast_mat (nz1 + nz2) (nz1 + nz2) H_k = Inr H' \<and>
           disc_time_dyn (collab p) (loc_xs L ! k) us w1 = Some (x_next, w') \<and>
           bcast_vec nx x_next = Inr x' \<and>
           L' = \<lparr>loc_xs = (loc_xs L)[k + 1 := x'], loc_zs = (loc_zs L)[k + 1 := z_next],
                 loc_Hs = (loc_Hs L)[k := H'], loc_PoI = (loc_PoI L)[k := [P1, P2]]\<rparr>"
  using assms
  unfolding step_evolve_def Let_def
  by (auto simp: bindE_eq_Inr call_def split: option.splits)

lemma list_all_update:
  "list_all P a \<Longrightarrow> P v \<Longrightarrow> list_all P (a[i := v])"
proof (cases "i < length a")
  case True
  assume "list_all P a" "P v"
  then show ?thesis using True by (auto simp: list_all_length nth_list_update)
next
  case False
  assume "list_all P a" "P v"
  then show ?thesis using False by (simp add: list_update_beyond)
qed

lemma grid_shape_update:
  "grid_shape a r c \<Longrightarrow> length v = c \<Longrightarrow> grid_shape (a[i := v]) r c"
  by (simp add: grid_shape_def list_all_update)

lemma step_evolve_shape:
  assumes "step_evolve p nx nz nz1 nz2 k sg us L w = Inr (L', w')"
    and "logs_shape nx nz (nz1 + nz2) N L"
  shows "logs_shape nx nz (nz1 + nz2) N L'"
proof -
  from step_evolve_Inr[OF assms(1)] obtain z_sum z_next H_k H' x_next x' P1 P2 where
    z: "bcast_vec nz z_sum = Inr z_next" and H: "bcast_mat (nz1 + nz2) (nz1 + nz2) H_k = Inr H'"
    and x: "bcast_vec nx x_next = Inr x'"
    and L': "L' = \<lparr>loc_xs = (loc_xs L)[k + 1 := x'], loc_zs = (loc_zs L)[k + 1 := z_next],
                 loc_Hs = (loc_Hs L)[k := H'], loc_PoI = (loc_PoI L)[k := [P1, P2]]\<rparr>"
    by blast
  show ?thesis
    using assms(2) bcast_vec_length[OF z] bcast_vec_length[OF x] bcast_mat_shape[OF H]
    unfolding L' logs_shape_def result_shapes_def
    by (simp add: grid_shape_update list_all_update)
qed

lemma step_Inr:
  assumes "step p nx nz nz1 nz2 z0 k (L, w) = Inr (L', w')"
  shows "\<exists>sg us w2. step_decide p nx nz1 nz2 z0 k L w = Inr ((sg, us), w2) \<and>
           step_evolve p nx nz nz1 nz2 k sg us L w2 = Inr (L', w')"
  using assms by (auto simp: step_def bindE_eq_Inr)

lemma step_shape:
  assumes "step p nx nz nz1 nz2 z0 k (L, w) = Inr (L', w')"
    and "logs_shape nx nz (nz1 + nz2) N L"
  shows "logs_shape nx nz (nz1 + nz2) N L'"
proof -
  from step_Inr[OF assms(1)] obtain sg us w2 where
    "step_evolve p nx nz nz1 nz2 k sg us L w2 = Inr (L', w')" by blast
  from step_evolve_shape[OF this assms(2)] show ?thesis .
qed

lemma step_columns_kept:
  assumes "step p nx nz nz1 nz2 z0 k (L, w) = Inr (L', w')" and "i \<le> k"
  shows "loc_xs L' ! i = loc_xs L ! i \<and> loc_zs L' ! i = loc_zs L ! i"
proof -
  from step_Inr[OF assms(1)] obtain sg us w2 where
    "step_evolve p nx nz nz1 nz2 k sg us L w2 = Inr (L', w')" by blast
  from step_evolve_Inr[OF this] assms(2) show ?thesis by auto
qed

lemma init_logs_shape:
  "logs_shape (length x0) (length z0) (nz1 + nz2) N (init_logs N nz1 nz2 x0 z0)"
  by (simp add: logs_shape_def result_shapes_def init_logs_def grid_shape_def list_all_iff)

lemma plan_steps_Suc:
  "plan_steps p x0 z0 (Suc n) w =
     bindE (plan_steps p x0 z0 n w)
       (step p (length x0) (length z0) (num_opn_P1 (collab p)) (num_opn_P2 (collab p)) z0 n)"
  by (simp add: plan_steps_def Let_def foldE_snoc)

lemma plan_steps_0:
  "plan_steps p x0 z0 0 w =
     Inr (init_logs (N_sim p) (num_opn_P1 (collab p)) (num_opn_P2 (collab p)) x0 z0, w)"
  by (simp add: plan_steps_def)

lemma plan_steps_shape:
  "plan_steps p x0 z0 n w = Inr (L, w') \<Longrightarrow>
     logs_shape (length x0) (length z0) (num_opn_P1 (collab p) + num_opn_P2 (collab p)) (N_sim p) L"
proof (induction n arbitrary: L w')
  case 0
  then show ?case using init_logs_shape by (auto simp: plan_steps_0)
next
  case (Suc n)
  then obtain Ln wn where n: "plan_steps p x0 z0 n w = Inr (Ln, wn)"
    and s: "step p (length x0) (length z0) (num_opn_P1 (collab p)) (num_opn_P2 (collab p)) z0 n
              (Ln, wn) = Inr (L, w')"
    by (auto simp: plan_steps_Suc bindE_eq_Inr)
  from step_shape[OF s Suc.IH[OF n]] show ?case .
qed

lemma plan_steps_prefix:
  "plan_steps p x0 z0 n w = Inr r \<Longrightarrow> m \<le> n \<Longrightarrow> \<exists>r'. plan_steps p x0 z0 m w = Inr r'"
proof (induction n arbitrary: r)
  case 0
  then show ?case by simp
next
  case (Suc n)
  show ?case
  proof (cases "m = Suc n")
    case True
    then show ?thesis using Suc.prems by simp
  next
    case False
    then have "m \<le> n" using Suc.prems by simp
    moreover from Suc.prems(1) obtain r1 where "plan_steps p x0 z0 n w = Inr r1"
      by (auto simp: plan_steps_Suc bindE_eq_Inr)
    ultimately show ?thesis using Suc.IH by blast
  qed
qed

lemma plan_steps_columns_kept:
  "plan_steps p x0 z0 m w = Inr (Lm, wm) \<Longrightarrow> plan_steps p x0 z0 n w = Inr (Ln, wn) \<Longrightarrow>
     m \<le> n \<Longrightarrow> i \<le> m \<Longrightarrow>
     loc_xs Ln ! i = loc_xs Lm ! i \<and> loc_zs Ln ! i = loc_zs Lm ! i"
proof (induction n arbitrary: Ln wn)
  case 0
  then show ?case by simp
next
  case (Suc n)
  show ?case
  proof (cases "m = Suc n")
    case True
    then show ?thesis using Suc.prems by simp
  next
    case False
    then have mn: "m \<le> n" using Suc.prems by simp
    from Suc.prems(2) obtain L1 w1 where n: "plan_steps p x0 z0 n w = Inr (L1, w1)"
      and s: "step p (length x0) (length z0) (num_opn_P1 (collab p)) (num_opn_P2 (collab p)) z0 n
              (L1, w1) = Inr (Ln, wn)"
      by (auto simp: plan_steps_Suc bindE_eq_Inr)
    have "i \<le> n" using mn Suc.prems(4) by simp
    from step_columns_kept[OF s this] Suc.IH[OF Suc.prems(1) n mn Suc.prems(4)]
    show ?thesis by simp
  qed
qed

lemma dispatch_no_index_error: "dispatch p x_k z1 z2 a1 a2 sg w \<noteq> Inl (IndexError s)"
  unfolding dispatch_def
  by (auto simp: bindE_eq_Inl call_def split: option.splits)

lemma step_evolve_no_index_error:
  "step_evolve p nx nz nz1 nz2 k sg us L w \<noteq> Inl (IndexError s)"
proof -
  have a: "np_add a b \<noteq> Inl (IndexError s)" for a b
    by (simp add: np_add_def)
  show ?thesis
    unfolding step_evolve_def Let_def
    by (auto simp: bindE_eq_Inl call_neq a bcast_vec_neq bcast_mat_neq)
qed

lemma step_decide_no_index_error:
  assumes "collect_subgames p nx nz1 nz2 (loc_xs L ! k) w \<noteq> Inl (IndexError s)"
    and "s \<noteq> Attention"
  shows "step_decide p nx nz1 nz2 z0 k L w \<noteq> Inl (IndexError s)"
  using assms dispatch_no_index_error[of p _ _ _ _ _ _ _ s]
  unfolding step_decide_def Let_def
  by (auto simp: bindE_eq_Inl split: if_splits)

lemma step_no_index_error:
  assumes "\<And>x_k w. collect_subgames p nx nz1 nz2 x_k w \<noteq> Inl (IndexError s)"
    and "s \<noteq> Attention"
  shows "step p nx nz nz1 nz2 z0 k Lw \<noteq> Inl (IndexError s)"
proof -
  obtain L w where Lw: "Lw = (L, w)" by (cases Lw)
  show ?thesis
    using step_decide_no_index_error[OF assms(1) assms(2)]
    unfolding Lw step_def
    by (auto simp: bindE_eq_Inl step_evolve_no_index_error)
qed

lemma plan_steps_no_index_error:
  assumes "\<And>x_k w. collect_subgames p (length x0) (num_opn_P1 (collab p)) (num_opn_P2 (collab p))
             x_k w \<noteq> Inl (IndexError s)"
    and "s \<noteq> Attention"
  shows "plan_steps p x0 z0 n w \<noteq> Inl (IndexError s)"
proof (induction n)
  case 0
  then show ?case by (simp add: plan_steps_0)
next
  case (Suc n)
  show ?case
    using Suc step_no_index_error[OF assms, of "length z0" z0 n]
    by (auto simp: plan_steps_Suc bindE_eq_Inl)
qed

lemma plan_Inr:
  assumes "plan p x0 z0 w = (Inr w', p')"
  shows "\<exists>L. plan_steps p x0 z0 (N_sim p) w = Inr (L, w') \<and>
             p' = p\<lparr>xs := Some (loc_xs L), zs := Some (loc_zs L),
                    Hs := Some (loc_Hs L), PoI := Some (loc_PoI L)\<rparr>"
  using assms by (auto simp: plan_def split: sum.splits)

lemma step_decide_Inr:
  assumes "step_decide p nx nz1 nz2 z0 k L w = Inr ((sg, us), w2)"
  shows "\<exists>A w1. collect_subgames p nx nz1 nz2 (loc_xs L ! k) w = Inr (A, w1) \<and>
           sg = subgame_k A nz1 nz2 z0 (loc_zs L) k"
  using assms
  unfolding step_decide_def Let_def
  by (auto simp: bindE_eq_Inr split: if_splits)

lemma np_add_bcast_same:
  assumes "np_add a b = Inr v" and "bcast_vec (length a) v = Inr v'"
  shows "v' = v"
  using assms
  by (auto simp: np_add_def bcast_vec_def split: if_splits)

lemma np_add_equal_length:
  "length a = length b \<Longrightarrow> np_add a (map (\<lambda>v. t * v) b) = Inr v \<Longrightarrow>
     v = map2 (\<lambda>z d. z + t * d) a b"
  by (auto simp: np_add_def zip_map2 intro!: nth_equalityI)

lemma init_logs_first_columns:
  "loc_xs (init_logs N nz1 nz2 x0 z0) ! 0 = x0 \<and> loc_zs (init_logs N nz1 nz2 x0 z0) ! 0 = z0"
  by (simp add: init_logs_def)

lemma dispatch_unknown_method:
  assumes "method_name p \<noteq> ''QMDPL0''" and "method_name p \<noteq> ''QMDPL1''"
    and "method_name p \<noteq> ''QMDPL1L0''"
  shows "dispatch p x_k z1 z2 a1 a2 sg w = Inl NotImplementedError"
  using assms by (simp add: dispatch_def)

lemma step_decide_unknown_method:
  assumes "method_name p \<noteq> ''QMDPL0''" and "method_name p \<noteq> ''QMDPL1''"
    and "method_name p \<noteq> ''QMDPL1L0''"
  shows "(\<exists>e. step_decide p nx nz1 nz2 z0 k L w = Inl e) \<and>
         (\<forall>A w1. collect_subgames p nx nz1 nz2 (loc_xs L ! k) w = Inr (A, w1) \<and> loc_zs L ! k \<noteq> []
            \<longrightarrow> step_decide p nx nz1 nz2 z0 k L w = Inl NotImplementedError)"
  unfolding step_decide_def Let_def
  by (cases "collect_subgames p nx nz1 nz2 (loc_xs L ! k) w")
     (auto simp: dispatch_unknown_method[OF assms])

subsection \<open>The example planner, step by step\<close>

lemma example_collect:
  "collect_subgames (example_planner m N) (Suc 0) (Suc 0) (Suc 0) x_k () = Inr (example_arrays, ())"
  by (simp add: collect_subgames_def collect_subgame_def init_arrays_def example_planner_def
      example_collab_def example_op_point_def example_arrays_def py_index_def call_def
      bcast_vec_def bcast_mat_def np_set2_def numeral_2_eq_2)

lemma example_step_decide:
  "Z ! k \<noteq> [] \<Longrightarrow>
   step_decide (example_planner ''QMDPL0'' N) (Suc 0) (Suc 0) (Suc 0) z0 k (example_logs Z) () =
     Inr ((subgame_k example_arrays (Suc 0) (Suc 0) z0 Z k, [0, 0]), ())"
  by (simp add: step_decide_def example_collect dispatch_def example_logs_def)
     (simp add: example_planner_def example_collab_def call_def)

lemma example_step_evolve_0:
  "step_evolve (example_planner m N) (Suc 0) (Suc (Suc (Suc (Suc 0)))) (Suc 0) (Suc 0) 0 sg us
     (example_logs [[1, 2, 0, 0], [0, 0, 0, 0], [0, 0, 0, 0]]) () =
     Inr (example_logs [[1, 2, 0, 0], [2, 3, 1, 1], [0, 0, 0, 0]], ())"
  by (simp add: step_evolve_def example_planner_def example_collab_def call_def example_logs_def
      np_add_def bcast_vec_def bcast_mat_def Let_def)

lemma example_step_evolve_1:
  "step_evolve (example_planner m N) (Suc 0) (Suc (Suc (Suc (Suc 0)))) (Suc 0) (Suc 0) (Suc 0) sg us
     (example_logs [[1, 2, 0, 0], [2, 3, 1, 1], [0, 0, 0, 0]]) () =
     Inr (example_logs [[1, 2, 0, 0], [2, 3, 1, 1], [3, 4, 2, 2]], ())"
  by (simp add: step_evolve_def example_planner_def example_collab_def call_def example_logs_def
      np_add_def bcast_vec_def bcast_mat_def Let_def)

lemma example_params:
  "num_opn_P1 (collab (example_planner m N)) = Suc 0"
  "num_opn_P2 (collab (example_planner m N)) = Suc 0"
  "N_sim (example_planner m N) = N"
  "method_name (example_planner m N) = m"
  by (simp_all add: example_planner_def example_collab_def)

lemma example_plan_steps_0:
  "plan_steps (example_planner m 2) [0] [1, 2, 0, 0] 0 () =
     Inr (example_logs [[1, 2, 0, 0], [0, 0, 0, 0], [0, 0, 0, 0]], ())"
  by (simp add: plan_steps_0 example_params init_logs_def example_logs_def numeral_2_eq_2
      numeral_3_eq_3)

lemma example_plan_steps_1:
  "plan_steps (example_planner ''QMDPL0'' 2) [0] [1, 2, 0, 0] (Suc 0) () =
     Inr (example_logs [[1, 2, 0, 0], [2, 3, 1, 1], [0, 0, 0, 0]], ())"
  by (simp add: plan_steps_Suc example_plan_steps_0 example_params step_def example_step_decide
      example_step_evolve_0)

lemma example_plan_steps_2:
  "plan_steps (example_planner ''QMDPL0'' 2) [0] [1, 2, 0, 0] (Suc (Suc 0)) () =
     Inr (example_logs [[1, 2, 0, 0], [2, 3, 1, 1], [3, 4, 2, 2]], ())"
  by (simp add: plan_steps_Suc[of _ _ _ "Suc 0"] example_plan_steps_1 example_params step_def
      example_step_decide example_step_evolve_1)

lemma example_plan:
  "plan (example_planner ''QMDPL0'' 2) [0] [1, 2, 0, 0] () =
     (Inr (),
      (example_planner ''QMDPL0'' 2)
        \<lparr>xs := Some [[0], [0], [0]],
         zs := Some [[1, 2, 0, 0], [2, 3, 1, 1], [3, 4, 2, 2]],
         Hs := Some [[[0, 0], [0, 0]], [[0, 0], [0, 0]]],
         PoI := Some [[0, 0], [0, 0]]\<rparr>)"
  using example_plan_steps_2
  by (simp add: plan_def example_params numeral_2_eq_2 example_logs_def)

section \<open>Properties of RHCPlanner.plan\<close>

text \<open>
  Claim C4.  The nominal-cost arrays \<open>nom_cost1_k\<close> and \<open>nom_cost2_k\<close> of a step are 2 by
  2 whatever the numbers \<open>nz1\<close>, \<open>nz2\<close> of opinion modes, and entry \<open>[l1, l2]\<close> is written
  for every \<open>l1 < nz1\<close>, \<open>l2 < nz2\<close>.  When \<open>nz1 \<le> 2\<close> and \<open>nz2 \<le> 2\<close>, \<open>plan\<close> never
  raises the index error of such a write; the writes into the other bundle arrays, which
  are sized by \<open>nz1\<close> and \<open>nz2\<close>, never raise it either.
\<close>

theorem nom_cost_writes_in_bounds:
  assumes "num_opn_P1 (collab p) \<le> 2" and "num_opn_P2 (collab p) \<le> 2"
  shows "nom_cost1_k (init_arrays nx nz1 nz2) = [[0, 0], [0, 0]] \<and>
         nom_cost2_k (init_arrays nx nz1 nz2) = [[0, 0], [0, 0]] \<and>
         fst (plan p x0 z0 w) \<noteq> Inl (IndexError NomCost) \<and>
         fst (plan p x0 z0 w) \<noteq> Inl (IndexError Bundle)"
proof -
  have n: "plan_steps p x0 z0 (N_sim p) w \<noteq> Inl (IndexError NomCost)"
    by (rule plan_steps_no_index_error)
       (simp_all add: collect_subgames_no_index_error(2)[OF assms])
  have b: "plan_steps p x0 z0 (N_sim p) w \<noteq> Inl (IndexError Bundle)"
    by (rule plan_steps_no_index_error)
       (simp_all add: collect_subgames_no_index_error(1))
  show ?thesis
    using n b
    by (auto simp: plan_def init_arrays_def numeral_2_eq_2 split: sum.splits)
qed

theorem nom_cost_writes_in_bounds_witness:
  "fst (plan (example_planner ''QMDPL0'' 2) [0] [1, 2, 0, 0] ()) \<noteq> Inl (IndexError NomCost)"
  using nom_cost_writes_in_bounds[of "example_planner ''QMDPL0'' 2" 0 0 0 "[0]" "[1, 2, 0, 0]" "()"]
  by (simp add: example_params)

text \<open>With three opinion modes for player 1 the write at \<open>l1 = 2\<close> is out of bounds.\<close>

lemma nom_cost_write_out_of_bounds_example:
  "plan example_planner3 [0] [1, 1, 1, 2, 0, 0] () = (Inl (IndexError NomCost), example_planner3)"
  by (simp add: plan_def plan_steps_def step_def step_decide_def
      collect_subgames_def collect_subgame_def init_arrays_def init_logs_def example_planner3_def
      example_collab_def example_op_point_def py_index_def call_def
      bcast_vec_def bcast_mat_def np_set2_def numeral_2_eq_2 numeral_3_eq_3 upt_rec)

text \<open>
  Claim C5.  When step \<open>k\<close> of the loop is reached and builds its bundle \<open>sg\<close>, the opinion
  references of the bundle are the first \<open>nz1\<close> entries and the next \<open>nz2\<close> entries of
  \<open>z0\<close> if \<open>k = 0\<close>, and of column \<open>k - 1\<close> of \<open>zs\<close> if \<open>k > 0\<close>; that column is the one
  the loop still holds after any later number \<open>n\<close> of steps, so also in the result.  In the
  example the references of step 1 are \<open>(1)\<close> and \<open>(2)\<close>, from column 0, while column 1 is
  \<open>(2, 3, 1, 1)\<close>.
\<close>

theorem opinion_reference_lag:
  assumes "plan_steps p x0 z0 k w = Inr (Lk, wk)"
    and "k < N_sim p"
    and "step_decide p (length x0) (num_opn_P1 (collab p)) (num_opn_P2 (collab p)) z0 k Lk wk
           = Inr ((sg, us), w2)"
    and "k \<le> n" and "n \<le> N_sim p"
    and "plan_steps p x0 z0 n w = Inr (Ln, wn)"
  shows "sg_znom1 sg =
           take (num_opn_P1 (collab p)) (if k = 0 then z0 else loc_zs Ln ! (k - 1)) \<and>
         sg_znom2 sg =
           take (num_opn_P2 (collab p))
             (drop (num_opn_P1 (collab p)) (if k = 0 then z0 else loc_zs Ln ! (k - 1)))"
proof -
  from step_decide_Inr[OF assms(3)] obtain A where
    sg: "sg = subgame_k A (num_opn_P1 (collab p)) (num_opn_P2 (collab p)) z0 (loc_zs Lk) k"
    by blast
  have "loc_zs Ln ! (k - 1) = loc_zs Lk ! (k - 1)"
    using plan_steps_columns_kept[OF assms(1) assms(6) assms(4), of "k - 1"] by simp
  then show ?thesis by (simp add: sg subgame_k_def)
qed

theorem opinion_reference_lag_witness:
  "sg_znom1 (example_bundle [1] [2]) = [1] \<and> sg_znom2 (example_bundle [1] [2]) = [2] \<and>
   loc_zs (example_logs [[1, 2, 0, 0], [2, 3, 1, 1], [3, 4, 2, 2]]) ! 1 = [2, 3, 1, 1]"
proof -
  have sg: "step_decide (example_planner ''QMDPL0'' 2) (length [0::real])
              (num_opn_P1 (collab (example_planner ''QMDPL0'' 2)))
              (num_opn_P2 (collab (example_planner ''QMDPL0'' 2))) [1, 2, 0, 0] (Suc 0)
              (example_logs [[1, 2, 0, 0], [2, 3, 1, 1], [0, 0, 0, 0]]) ()
            = Inr ((example_bundle [1] [2], [0, 0]), ())"
    by (simp add: example_params example_step_decide subgame_k_def example_bundle_def
        example_arrays_def)
  have k: "Suc 0 < N_sim (example_planner ''QMDPL0'' 2)" by (simp add: example_params)
  show ?thesis
    using opinion_reference_lag[OF example_plan_steps_1 k sg _ _ example_plan_steps_2]
    by (simp add: example_params example_logs_def)
qed

text \<open>
  Claim C6.  After a call of \<open>plan(x0, z0)\<close> that returns, the attributes \<open>xs\<close>, \<open>zs\<close>,
  \<open>Hs\<close>, \<open>PoI\<close> hold the arrays of the loop, of shapes \<open>nx\<close> by \<open>N_sim + 1\<close>, \<open>nz\<close> by
  \<open>N_sim + 1\<close>, \<open>nz1 + nz2\<close> by \<open>nz1 + nz2\<close> by \<open>N_sim\<close>, and 2 by \<open>N_sim\<close>.
\<close>

theorem plan_result_shapes:
  assumes "plan p x0 z0 w = (Inr w', p')"
  shows "\<exists>X Z H P. xs p' = Some X \<and> zs p' = Some Z \<and> Hs p' = Some H \<and> PoI p' = Some P \<and>
           result_shapes (length x0) (length z0)
             (num_opn_P1 (collab p) + num_opn_P2 (collab p)) (N_sim p) X Z H P \<and>
           plan_steps p x0 z0 (N_sim p) w =
             Inr (\<lparr>loc_xs = X, loc_zs = Z, loc_Hs = H, loc_PoI = P\<rparr>, w')"
proof -
  from plan_Inr[OF assms] obtain L where
    L: "plan_steps p x0 z0 (N_sim p) w = Inr (L, w')"
    and p': "p' = p\<lparr>xs := Some (loc_xs L), zs := Some (loc_zs L),
                    Hs := Some (loc_Hs L), PoI := Some (loc_PoI L)\<rparr>"
    by blast
  from plan_steps_shape[OF L] have
    "result_shapes (length x0) (length z0) (num_opn_P1 (collab p) + num_opn_P2 (collab p))
       (N_sim p) (loc_xs L) (loc_zs L) (loc_Hs L) (loc_PoI L)"
    by (simp add: logs_shape_def)
  then show ?thesis using L p' by simp
qed

theorem plan_result_shapes_witness:
  "result_shapes 1 4 2 2 [[0], [0], [0]] [[1, 2, 0, 0], [2, 3, 1, 1], [3, 4, 2, 2]]
     [[[0, 0], [0, 0]], [[0, 0], [0, 0]]] [[0, 0], [0, 0]]"
  using plan_result_shapes[OF example_plan]
  by (simp add: example_params eval_nat_numeral)

text \<open>
  Claim C7.  After a call of \<open>plan(x0, z0)\<close> that returns, with results \<open>xs = X\<close> and
  \<open>zs = Z\<close>: for every step \<open>k < N_sim\<close>, the opinion model was called at step \<open>k\<close> on the
  state \<open>X[:, k]\<close> joined with \<open>Z[:, k]\<close> and on the bundle of step \<open>k\<close>, returned a
  derivative \<open>z_dot\<close>, and \<open>Z[:, k + 1] = Z[:, k] + T * z_dot\<close> (the sum as numpy forms it;
  entry by entry when \<open>z_dot\<close> has the length of \<open>z0\<close>).
\<close>

theorem opinion_euler_step:
  assumes "plan p x0 z0 w = (Inr w', p')" and "xs p' = Some X" and "zs p' = Some Z"
    and "k < N_sim p"
  shows "\<exists>Lk wk sg us w2 z_dot H_k PoI1_k PoI2_k w3.
           plan_steps p x0 z0 k w = Inr (Lk, wk) \<and>
           step_decide p (length x0) (num_opn_P1 (collab p)) (num_opn_P2 (collab p)) z0 k Lk wk
             = Inr ((sg, us), w2) \<and>
           cont_time_dyn (collab p) (X ! k @ Z ! k) sg w2
             = Some ((z_dot, H_k, PoI1_k, PoI2_k), w3) \<and>
           np_add (Z ! k) (map (\<lambda>v. T (collab p) * v) z_dot) = Inr (Z ! (k + 1)) \<and>
           (length z_dot = length z0 \<longrightarrow>
              Z ! (k + 1) = map2 (\<lambda>z d. z + T (collab p) * d) (Z ! k) z_dot)"
proof -
  let ?nx = "length x0" and ?nz = "length z0"
  let ?nz1 = "num_opn_P1 (collab p)" and ?nz2 = "num_opn_P2 (collab p)"
  from plan_Inr[OF assms(1)] assms(2,3) obtain L where
    L: "plan_steps p x0 z0 (N_sim p) w = Inr (L, w')" and X: "X = loc_xs L" and Z: "Z = loc_zs L"
    by auto
  from plan_steps_prefix[OF L, of "Suc k"] assms(4) obtain L1 w1 where
    L1: "plan_steps p x0 z0 (Suc k) w = Inr (L1, w1)" by auto
  then obtain Lk wk where Lk: "plan_steps p x0 z0 k w = Inr (Lk, wk)"
    and st: "step p ?nx ?nz ?nz1 ?nz2 z0 k (Lk, wk) = Inr (L1, w1)"
    by (auto simp: plan_steps_Suc bindE_eq_Inr)
  from step_Inr[OF st] obtain sg us w2 where
    dec: "step_decide p ?nx ?nz1 ?nz2 z0 k Lk wk = Inr ((sg, us), w2)"
    and ev: "step_evolve p ?nx ?nz ?nz1 ?nz2 k sg us Lk w2 = Inr (L1, w1)"
    by blast
  from step_evolve_Inr[OF ev] obtain z_dot H_k P1 P2 w3 z_sum z_next where
    ctd: "cont_time_dyn (collab p) (loc_xs Lk ! k @ loc_zs Lk ! k) sg w2
            = Some ((z_dot, H_k, P1, P2), w3)"
    and add: "np_add (loc_zs Lk ! k) (map (\<lambda>v. T (collab p) * v) z_dot) = Inr z_sum"
    and bc: "bcast_vec ?nz z_sum = Inr z_next"
    and zs1: "loc_zs L1 = (loc_zs Lk)[k + 1 := z_next]"
    by auto
  have shape: "logs_shape ?nx ?nz (?nz1 + ?nz2) (N_sim p) Lk"
    by (rule plan_steps_shape[OF Lk])
  then have len: "length (loc_zs Lk) = N_sim p + 1" and col: "length (loc_zs Lk ! k) = ?nz"
    using assms(4)
    by (simp_all add: logs_shape_def result_shapes_def grid_shape_def list_all_length)
  have same: "z_next = z_sum"
    using np_add_bcast_same[OF add] bc col by simp
  have k_cols: "loc_xs L ! k = loc_xs Lk ! k" "loc_zs L ! k = loc_zs Lk ! k"
    using plan_steps_columns_kept[OF Lk L, of k] assms(4) by simp_all
  have "loc_zs L ! (k + 1) = loc_zs L1 ! (k + 1)"
    using plan_steps_columns_kept[OF L1 L, of "k + 1"] assms(4) by simp
  also have "\<dots> = z_sum"
    using zs1 len assms(4) same by simp
  finally have next_col: "loc_zs L ! (k + 1) = z_sum" .
  have eq: "length z_dot = ?nz \<longrightarrow>
        z_sum = map2 (\<lambda>z d. z + T (collab p) * d) (loc_zs Lk ! k) z_dot"
    using np_add_equal_length[OF _ add] col by simp
  show ?thesis
    using Lk dec ctd add eq next_col k_cols unfolding X Z
    by (intro exI[of _ Lk] exI[of _ wk] exI[of _ sg] exI[of _ us] exI[of _ w2] exI[of _ z_dot]
        exI[of _ H_k] exI[of _ P1] exI[of _ P2] exI[of _ w3]) simp
qed

theorem opinion_euler_step_witness:
  "np_add [1, 2, 0, 0] (map (\<lambda>v. (1 / 2) * v) [2, 2, 2, 2]) = Inr [2, 3, 1, 1]"
proof -
  have k: "0 < N_sim (example_planner ''QMDPL0'' 2)" by (simp add: example_params)
  from opinion_euler_step[OF example_plan _ _ k,
      of "[[0], [0], [0]]" "[[1, 2, 0, 0], [2, 3, 1, 1], [3, 4, 2, 2]]"]
  show ?thesis
    by (auto simp: example_planner_def example_collab_def)
qed

text \<open>
  Claim C8, as the source has it.  With a method other than \<open>QMDPL0\<close>, \<open>QMDPL1\<close> and
  \<open>QMDPL1L0\<close> and at least one simulation step, \<open>plan\<close> raises and the planner, with its
  attributes \<open>xs\<close>, \<open>zs\<close>, \<open>Hs\<close>, \<open>PoI\<close>, is as before the call; the error is
  \<open>NotImplementedError\<close> when the subgames of step 0 are solved and stored without an error
  and \<open>z0\<close> is not empty.
\<close>

theorem unknown_method_raises:
  assumes "method_name p \<noteq> ''QMDPL0''" and "method_name p \<noteq> ''QMDPL1''"
    and "method_name p \<noteq> ''QMDPL1L0''"
    and "1 \<le> N_sim p"
  shows "(\<exists>e. plan p x0 z0 w = (Inl e, p)) \<and>
         (\<forall>A w1. collect_subgames p (length x0) (num_opn_P1 (collab p)) (num_opn_P2 (collab p))
                    x0 w = Inr (A, w1) \<and> z0 \<noteq> []
            \<longrightarrow> plan p x0 z0 w = (Inl NotImplementedError, p))"
proof -
  let ?nx = "length x0" and ?nz = "length z0"
  let ?nz1 = "num_opn_P1 (collab p)" and ?nz2 = "num_opn_P2 (collab p)"
  let ?L0 = "init_logs (N_sim p) ?nz1 ?nz2 x0 z0"
  have upt: "[0..<N_sim p] = 0 # [1..<N_sim p]"
    using assms(4) by (simp add: upt_rec)
  have steps: "plan_steps p x0 z0 (N_sim p) w =
        bindE (step p ?nx ?nz ?nz1 ?nz2 z0 0 (?L0, w)) (foldE (step p ?nx ?nz ?nz1 ?nz2 z0) [1..<N_sim p])"
    by (simp add: plan_steps_def Let_def upt)
  from step_decide_unknown_method[OF assms(1-3), of ?nx ?nz1 ?nz2 z0 0 ?L0 w]
  obtain e where e: "step_decide p ?nx ?nz1 ?nz2 z0 0 ?L0 w = Inl e"
    and ni: "\<forall>A w1. collect_subgames p ?nx ?nz1 ?nz2 x0 w = Inr (A, w1) \<and> z0 \<noteq> []
            \<longrightarrow> step_decide p ?nx ?nz1 ?nz2 z0 0 ?L0 w = Inl NotImplementedError"
    by (auto simp: init_logs_first_columns)
  have "plan_steps p x0 z0 (N_sim p) w = Inl e"
    by (simp add: steps step_def e)
  then have 1: "plan p x0 z0 w = (Inl e, p)"
    by (simp add: plan_def)
  have 2: "plan p x0 z0 w = (Inl NotImplementedError, p)"
    if "collect_subgames p ?nx ?nz1 ?nz2 x0 w = Inr (A, w1)" "z0 \<noteq> []" for A w1
  proof -
    from ni that have "step_decide p ?nx ?nz1 ?nz2 z0 0 ?L0 w = Inl NotImplementedError" by blast
    then have "plan_steps p x0 z0 (N_sim p) w = Inl NotImplementedError"
      by (simp add: steps step_def)
    then show ?thesis by (simp add: plan_def)
  qed
  from 1 2 show ?thesis by blast
qed

theorem unknown_method_raises_witness:
  "plan (example_planner ''greedy'' 2) [0] [1, 2, 0, 0] () =
     (Inl NotImplementedError, example_planner ''greedy'' 2)"
  using unknown_method_raises[where p = "example_planner ''greedy'' 2" and ?x0.0 = "[0]"
      and w = "()" and ?z0.0 = "[1, 2, 0, 0]"]
  by (simp add: example_params example_collect)

text \<open>
  The method is looked at inside the loop only: with \<open>N_sim = 0\<close> a call with an unknown
  method returns and stores the initial arrays.
\<close>

theorem unknown_method_zero_steps_returns:
  "plan (example_planner ''greedy'' 0) [0] [1, 2, 0, 0] () =
     (Inr (),
      (example_planner ''greedy'' 0)
        \<lparr>xs := Some [[0]], zs := Some [[1, 2, 0, 0]], Hs := Some [], PoI := Some []\<rparr>)"
  by (simp add: plan_def plan_steps_0 example_params init_logs_def)

end
